theory Spec2Isabelle
  imports Main
begin

section \<open>Price Alert (pricealert.py): data\<close>

subsection \<open>Strings\<close>

text \<open>
  A Python \<open>str\<close> is a sequence of Unicode code points; it is modelled as a list of
  naturals. \<open>lit\<close> turns an ASCII literal of the source into that representation.
\<close>

type_synonym pystr = "nat list"

definition lit :: "string \<Rightarrow> pystr" where
  "lit s = map of_char s"

definition nbsp :: nat where
  "nbsp = 160"

definition newline :: nat where
  "newline = 10"

definition quote :: nat where
  "quote = 39"

text \<open>\<^verbatim>\<open>str.split(sep)\<close> for a one-character separator: never an empty list.\<close>

fun split :: "nat \<Rightarrow> pystr \<Rightarrow> pystr list" where
  "split sep [] = [[]]"
| "split sep (c # cs) =
     (if c = sep then [] # split sep cs
      else (case split sep cs of
              p # ps \<Rightarrow> (c # p) # ps
            | [] \<Rightarrow> [[c]]))"

text \<open>\<^verbatim>\<open>' '.join(xs)\<close>.\<close>

fun join_space :: "pystr list \<Rightarrow> pystr" where
  "join_space [] = []"
| "join_space [x] = x"
| "join_space (x # y # ys) = x @ [32] @ join_space (y # ys)"

text \<open>
  \<^verbatim>\<open>str.splitlines()\<close>: the line boundaries are LF, CR, CR LF, VT, FF, FS, GS, RS, NEL,
  LS and PS; a final boundary opens no empty last line.
\<close>

definition is_linebreak :: "nat \<Rightarrow> bool" where
  "is_linebreak c \<longleftrightarrow> c \<in> {10, 11, 12, 13, 28, 29, 30, 133, 8232, 8233}"

fun splitlines_from :: "pystr \<Rightarrow> pystr \<Rightarrow> pystr list" where
  "splitlines_from cur [] = (if cur = [] then [] else [cur])"
| "splitlines_from cur [c] =
     (if is_linebreak c then [cur] else [cur @ [c]])"
| "splitlines_from cur (c # d # cs) =
     (if c = 13 \<and> d = 10 then cur # splitlines_from [] cs
      else if is_linebreak c then cur # splitlines_from [] (d # cs)
      else splitlines_from (cur @ [c]) (d # cs))"

definition splitlines :: "pystr \<Rightarrow> pystr list" where
  "splitlines s = splitlines_from [] s"

text \<open>
  What \<^verbatim>\<open>\s\<close> matches in a \<open>str\<close> pattern: the characters for which
  \<^verbatim>\<open>str.isspace()\<close> holds.
\<close>

definition is_space :: "nat \<Rightarrow> bool" where
  "is_space c \<longleftrightarrow>
     (9 \<le> c \<and> c \<le> 13) \<or> (28 \<le> c \<and> c \<le> 32) \<or> c = 133 \<or> c = 160 \<or> c = 5760
     \<or> (8192 \<le> c \<and> c \<le> 8202) \<or> c = 8232 \<or> c = 8233 \<or> c = 8239 \<or> c = 8287
     \<or> c = 12288"

subsection \<open>Floats\<close>

text \<open>
  A Python \<open>float\<close> is a sign, a magnitude \<open>m * 2 ^ e\<close>, or an infinity or a NaN.
  \<open>Fin neg m e\<close> puts no bound on \<open>m\<close> and \<open>e\<close>, so every double is a value of the
  type (and \<open>Fin True 0 e\<close> is the negative zero).
\<close>

datatype pyfloat = Fin bool nat int | Inf bool | NaN

text \<open>Two finite values on a common exponent, as signed integers.\<close>

definition signed :: "bool \<Rightarrow> nat \<Rightarrow> int" where
  "signed neg m = (if neg then - int m else int m)"

definition scaled :: "bool \<Rightarrow> nat \<Rightarrow> int \<Rightarrow> int \<Rightarrow> int" where
  "scaled neg m e k = signed neg m * 2 ^ nat (e - k)"

text \<open>The comparison \<^verbatim>\<open>a > b\<close> of two floats: false whenever one is a NaN.\<close>

fun py_gt :: "pyfloat \<Rightarrow> pyfloat \<Rightarrow> bool" where
  "py_gt NaN b = False"
| "py_gt a NaN = False"
| "py_gt (Inf True) b = False"
| "py_gt (Inf False) b = (b \<noteq> Inf False)"
| "py_gt (Fin s m e) (Inf neg) = neg"
| "py_gt (Fin s1 m1 e1) (Fin s2 m2 e2) =
     (scaled s2 m2 e2 (min e1 e2) < scaled s1 m1 e1 (min e1 e2))"

text \<open>Decimal digits of a natural number, as code points.\<close>

fun digits :: "nat \<Rightarrow> pystr" where
  "digits n = (if n < 10 then [48 + n] else digits (n div 10) @ [48 + n mod 10])"

text \<open>\<open>a / b\<close> rounded to the nearest integer, a tie to the even one.\<close>

definition round_half_even :: "nat \<Rightarrow> nat \<Rightarrow> nat" where
  "round_half_even a b =
     (let q = a div b; r = a mod b
      in if 2 * r < b then q
         else if b < 2 * r then q + 1
         else if even q then q else q + 1)"

text \<open>The magnitude times 100, rounded: the digits that \<^verbatim>\<open>{:.2f}\<close> prints.\<close>

definition cents :: "nat \<Rightarrow> int \<Rightarrow> nat" where
  "cents m e =
     (if 0 \<le> e then m * 100 * 2 ^ nat e
      else round_half_even (m * 100) (2 ^ nat (- e)))"

text \<open>\<^verbatim>\<open>'{:.2f}'.format(x)\<close>.\<close>

fun format_2f :: "pyfloat \<Rightarrow> pystr" where
  "format_2f NaN = lit ''nan''"
| "format_2f (Inf neg) = (if neg then lit ''-inf'' else lit ''inf'')"
| "format_2f (Fin neg m e) =
     (let n = cents m e
      in (if neg then lit ''-'' else [])
         @ digits (n div 100) @ lit ''.'' @ [48 + (n mod 100) div 10, 48 + n mod 10])"

subsection \<open>Documents\<close>

text \<open>
  The tree that BeautifulSoup builds: tags with their attributes and children, and the
  strings between them. An attribute's value is a string, or a list of strings for a
  multi-valued attribute such as \<open>class\<close>. Comments and the like are left out: no
  operation below reads them.
\<close>

datatype attr_value = AStr pystr | AList "pystr list"

datatype node = Tag pystr "(pystr \<times> attr_value) list" "node list" | NavigableString pystr

text \<open>\<^verbatim>\<open>tag.get(key)\<close>.\<close>

fun get_attr :: "node \<Rightarrow> pystr \<Rightarrow> attr_value option" where
  "get_attr (Tag n a cs) k = map_of a k"
| "get_attr (NavigableString s) k = None"

fun children :: "node \<Rightarrow> node list" where
  "children (Tag n a cs) = cs"
| "children (NavigableString s) = []"

text \<open>\<^verbatim>\<open>tag.descendants\<close>: every node below the tag, in document order.\<close>

fun descendants :: "node \<Rightarrow> node list" where
  "descendants (Tag n a cs) = concat (map (\<lambda>c. c # descendants c) cs)"
| "descendants (NavigableString s) = []"

text \<open>\<^verbatim>\<open>tag.text\<close>: the strings below the tag, concatenated.\<close>

fun own_string :: "node \<Rightarrow> pystr" where
  "own_string (NavigableString s) = s"
| "own_string (Tag n a cs) = []"

definition get_text :: "node \<Rightarrow> pystr" where
  "get_text t = concat (map own_string (descendants t))"

text \<open>
  How \<^verbatim>\<open>find\<close> matches an attribute against a string: the value itself, or for a
  multi-valued attribute one of its values or all of them joined by spaces.
\<close>

fun attr_matches :: "attr_value option \<Rightarrow> pystr \<Rightarrow> bool" where
  "attr_matches None target = (target = [])"
| "attr_matches (Some (AStr s)) target = (s = target)"
| "attr_matches (Some (AList xs)) target = (target \<in> set xs \<or> join_space xs = target)"

text \<open>A tag matches when its name is the one asked for (if any) and every attribute asked for matches.\<close>

fun matches :: "pystr option \<Rightarrow> (pystr \<times> pystr) list \<Rightarrow> node \<Rightarrow> bool" where
  "matches name attrs (NavigableString s) = False"
| "matches name attrs (Tag n a cs) =
     ((case name of None \<Rightarrow> True | Some nm \<Rightarrow> n = nm)
      \<and> list_all (\<lambda>(k, v). attr_matches (map_of a k) v) attrs)"

text \<open>\<^verbatim>\<open>tag.find_all(name, recursive=..., **attrs)\<close> and \<^verbatim>\<open>tag.find\<close>, its first result or None.\<close>

definition find_all :: "node \<Rightarrow> pystr option \<Rightarrow> (pystr \<times> pystr) list \<Rightarrow> bool \<Rightarrow> node list" where
  "find_all t name attrs recursive =
     filter (matches name attrs) (if recursive then descendants t else children t)"

definition find :: "node \<Rightarrow> pystr option \<Rightarrow> (pystr \<times> pystr) list \<Rightarrow> bool \<Rightarrow> node option" where
  "find t name attrs recursive =
     (case find_all t name attrs recursive of [] \<Rightarrow> None | x # xs \<Rightarrow> Some x)"

subsection \<open>Python values, errors, the environment\<close>

text \<open>
  The five check functions of the module, as function objects.
\<close>

datatype extractor = Galaxus | Baechli | Intersport | Primal | Transa

text \<open>
  The objects a shop's \<open>check_func\<close> entry can hold: the string of the configuration, or
  what the module's namespace binds to a name. \<open>PObject\<close> is any other hashable object
  (a module, a class, a function, a typing form, a file), \<open>PUnhashable\<close> a dictionary.
\<close>

datatype pyval =
    PStr pystr
  | PNone
  | PExtractor extractor
  | PFetch
  | PObject pystr
  | PUnhashable pystr

text \<open>
  The exceptions that end a run. \<open>CheckFuncNotFound v\<close> is the
  \<^verbatim>\<open>ValueError('Check func not found: ...')\<close> of \<^verbatim>\<open>_load_check_fn\<close>; \<open>ValueError\<close> is the one
  of \<^verbatim>\<open>float()\<close>; \<open>RequestError\<close> is an exception of \<^verbatim>\<open>requests.get\<close> itself;
  \<open>NotAnExtractor\<close> stands for whatever calling an object that is no check function
  raises. The interpreter runs without \<^verbatim>\<open>-O\<close>: an \<^verbatim>\<open>assert\<close> whose condition is false raises
  AssertionError.
\<close>

datatype pyerror =
    RequestError
  | HTTPError nat
  | AttributeError
  | TypeError
  | ValueError
  | IndexError
  | KeyError
  | AssertionError
  | CheckFuncNotFound pyval
  | NotAnExtractor

record response =
  status_code :: nat
  resp_text :: pystr

text \<open>
  What the program takes from outside: the server's answer to a GET of a URL (None
  when \<^verbatim>\<open>requests.get\<close> raises), the HTML parser, \<^verbatim>\<open>float()\<close> on a string (None for a
  ValueError), the Unicode decimal digits that \<^verbatim>\<open>\d\<close> matches, and the names that the
  interpreter and the script block put into the module's namespace (\<open>__name__\<close>,
  \<open>__doc__\<close>, ..., \<open>args\<close>, \<open>configfile\<close>, \<open>f\<close>, \<open>config\<close>).
\<close>

record env =
  http_get :: "pystr \<Rightarrow> response option"
  html_parser :: "pystr \<Rightarrow> node"
  py_float :: "pystr \<Rightarrow> pyfloat option"
  unicode_digit :: "nat \<Rightarrow> bool"
  extra_globals :: "pystr \<Rightarrow> pyval option"

text \<open>What a run changes outside the configuration: standard output and the requests sent.\<close>

record world =
  stdout :: pystr
  requests_log :: "pystr list"

definition print :: "pystr \<Rightarrow> world \<Rightarrow> world" where
  "print s w = w\<lparr>stdout := stdout w @ s\<rparr>"

type_synonym prices = "pyfloat \<times> pyfloat option"

section \<open>The fetcher\<close>

datatype fetched = RawText pystr | Soup node

text \<open>
  \<^verbatim>\<open>response.raise_for_status()\<close> raises HTTPError for a status from 400 to 599, and for
  no other.
\<close>

definition raise_for_status :: "response \<Rightarrow> pyerror option" where
  "raise_for_status r =
     (if 400 \<le> status_code r \<and> status_code r < 600 then Some (HTTPError (status_code r))
      else None)"

definition fetch :: "env \<Rightarrow> pystr \<Rightarrow> bool \<Rightarrow> world \<Rightarrow> (pyerror + fetched) \<times> world" where
  "fetch E url raw w =
     (let w' = w\<lparr>requests_log := requests_log w @ [url]\<rparr>
      in case http_get E url of
           None \<Rightarrow> (Inl RequestError, w')
         | Some r \<Rightarrow>
             (case raise_for_status r of
                Some e \<Rightarrow> (Inl e, w')
              | None \<Rightarrow>
                  if raw then (Inr (RawText (resp_text r)), w')
                  else (Inr (Soup (html_parser E (resp_text r))), w')))"

section \<open>The extractors\<close>

text \<open>\<^verbatim>\<open>float(x)\<close> for what \<^verbatim>\<open>tag.get('content')\<close> returned.\<close>

fun float_of :: "env \<Rightarrow> attr_value option \<Rightarrow> pyerror + pyfloat" where
  "float_of E None = Inl TypeError"
| "float_of E (Some (AList xs)) = Inl TypeError"
| "float_of E (Some (AStr s)) = (case py_float E s of None \<Rightarrow> Inl ValueError | Some x \<Rightarrow> Inr x)"

text \<open>\<^verbatim>\<open>float(soup.find(name, **attrs).get('content'))\<close>: AttributeError when nothing is found.\<close>

definition content_float :: "env \<Rightarrow> node option \<Rightarrow> pyerror + pyfloat" where
  "content_float E found =
     (case found of
        None \<Rightarrow> Inl AttributeError
      | Some t \<Rightarrow> float_of E (get_attr t (lit ''content'')))"

text \<open>Lines 48 to 54: \<^verbatim>\<open>check_galaxus\<close> after its fetch.\<close>

definition galaxus_prices :: "env \<Rightarrow> node \<Rightarrow> pyerror + prices" where
  "galaxus_prices E soup =
     (case content_float E
             (find soup (Some (lit ''meta'')) [(lit ''property'', lit ''product:price:amount'')] True) of
        Inl e \<Rightarrow> Inl e
      | Inr current \<Rightarrow>
          (case find soup (Some (lit ''meta''))
                  [(lit ''property'', lit ''og:price:standard_amount'')] True of
             Some standard_amount_meta \<Rightarrow>
               (case float_of E (get_attr standard_amount_meta (lit ''content'')) of
                  Inl e \<Rightarrow> Inl e
                | Inr regular \<Rightarrow> Inr (current, Some regular))
           | None \<Rightarrow> Inr (current, None)))"

text \<open>
  An extractor: the fetch, then the extraction from the document it returned (a fetch
  that is not raw returns no text, so the last case does not arise).
\<close>

definition on_soup :: "env \<Rightarrow> pystr \<Rightarrow> world \<Rightarrow> (node \<Rightarrow> pyerror + prices) \<Rightarrow> (pyerror + prices) \<times> world" where
  "on_soup E url w extract =
     (case fetch E url False w of
        (Inl e, w') \<Rightarrow> (Inl e, w')
      | (Inr (Soup soup), w') \<Rightarrow> (extract soup, w')
      | (Inr (RawText t), w') \<Rightarrow> (Inl AttributeError, w'))"

definition check_galaxus :: "env \<Rightarrow> pystr \<Rightarrow> world \<Rightarrow> (pyerror + prices) \<times> world" where
  "check_galaxus E url w = on_soup E url w (galaxus_prices E)"

definition baechli_prices :: "env \<Rightarrow> node \<Rightarrow> pyerror + prices" where
  "baechli_prices E soup =
     (case content_float E
             (find soup (Some (lit ''meta'')) [(lit ''property'', lit ''product:price:amount'')] True) of
        Inl e \<Rightarrow> Inl e
      | Inr current \<Rightarrow> Inr (current, None))"

definition check_baechli :: "env \<Rightarrow> pystr \<Rightarrow> world \<Rightarrow> (pyerror + prices) \<times> world" where
  "check_baechli E url w = on_soup E url w (baechli_prices E)"

text \<open>
  \<^verbatim>\<open>_get_price\<close> of \<^verbatim>\<open>check_intersport\<close>: the text of the first element of class
  \<open>amount\<close>, split at the no-break space; the assertion on the first part; the float of
  the second.
\<close>

definition get_price :: "env \<Rightarrow> node \<Rightarrow> pyerror + pyfloat" where
  "get_price E element =
     (case find element None [(lit ''class'', lit ''amount'')] True of
        None \<Rightarrow> Inl AttributeError
      | Some amount \<Rightarrow>
          (let parts = split nbsp (get_text amount)
           in if hd parts \<noteq> lit ''CHF'' then Inl AssertionError
              else (case tl parts of
                      [] \<Rightarrow> Inl IndexError
                    | p # ps \<Rightarrow> float_of E (Some (AStr p)))))"

definition intersport_prices :: "env \<Rightarrow> node \<Rightarrow> pyerror + prices" where
  "intersport_prices E soup =
     (case find soup (Some (lit ''div'')) [(lit ''class'', lit ''entry-summary'')] True of
        None \<Rightarrow> Inl AttributeError
      | Some summary \<Rightarrow>
          (case find summary None [(lit ''class'', lit ''price'')] True of
             None \<Rightarrow> Inl AttributeError
           | Some prices \<Rightarrow>
               (let regular = find prices (Some (lit ''del'')) [] False;
                    current = find prices (Some (lit ''ins'')) [] False
                in case (regular, current) of
                     (Some reg, Some cur) \<Rightarrow>
                       (case get_price E cur of
                          Inl e \<Rightarrow> Inl e
                        | Inr c \<Rightarrow>
                            (case get_price E reg of
                               Inl e \<Rightarrow> Inl e
                             | Inr r \<Rightarrow> Inr (c, Some r)))
                   | _ \<Rightarrow>
                       (case get_price E prices of
                          Inl e \<Rightarrow> Inl e
                        | Inr c \<Rightarrow> Inr (c, None)))))"

definition check_intersport :: "env \<Rightarrow> pystr \<Rightarrow> world \<Rightarrow> (pyerror + prices) \<times> world" where
  "check_intersport E url w = on_soup E url w (intersport_prices E)"

text \<open>
  \<^verbatim>\<open>re.findall(r'[\d\.]+', s)[0]\<close>: the first longest run of digits and dots, IndexError
  when there is none.
\<close>

definition first_number :: "env \<Rightarrow> pystr \<Rightarrow> pyerror + pystr" where
  "first_number E s =
     (let in_class = (\<lambda>c. unicode_digit E c \<or> c = 46);
          rest = dropWhile (\<lambda>c. \<not> in_class c) s
      in if rest = [] then Inl IndexError else Inr (takeWhile in_class rest))"

definition primal_prices :: "env \<Rightarrow> node \<Rightarrow> pyerror + prices" where
  "primal_prices E soup =
     (case content_float E (find soup (Some (lit ''meta'')) [(lit ''itemprop'', lit ''price'')] True) of
        Inl e \<Rightarrow> Inl e
      | Inr current \<Rightarrow>
          (case find soup (Some (lit ''span'')) [(lit ''class'', lit ''price--line-through'')] True of
             Some regular_element \<Rightarrow>
               (case first_number E (get_text regular_element) of
                  Inl e \<Rightarrow> Inl e
                | Inr num \<Rightarrow>
                    (case float_of E (Some (AStr num)) of
                       Inl e \<Rightarrow> Inl e
                     | Inr regular \<Rightarrow> Inr (current, Some regular)))
           | None \<Rightarrow> Inr (current, None)))"

definition check_primal :: "env \<Rightarrow> pystr \<Rightarrow> world \<Rightarrow> (pyerror + prices) \<times> world" where
  "check_primal E url w = on_soup E url w (primal_prices E)"

text \<open>
  \<^verbatim>\<open>re.match(r"^\s*(base|promo): 'CHF ([^']*)',$", line)\<close>: the groups of the match, or
  None. After the leading whitespace comes the key, then \<^verbatim>\<open>: 'CHF \<close>, then everything up
  to the next quote, and what is left is the quote and a comma (\<^verbatim>\<open>$\<close> also lets one
  newline follow).
\<close>

definition match_key :: "pystr \<Rightarrow> (pystr \<times> pystr) option" where
  "match_key s =
     (if take 4 s = lit ''base'' then Some (lit ''base'', drop 4 s)
      else if take 5 s = lit ''promo'' then Some (lit ''promo'', drop 5 s)
      else None)"

definition match_price_line :: "pystr \<Rightarrow> (pystr \<times> pystr) option" where
  "match_price_line line =
     (case match_key (dropWhile is_space line) of
        None \<Rightarrow> None
      | Some (key, rest) \<Rightarrow>
          if take 7 rest \<noteq> lit '': 'CHF '' then None
          else (let amount = takeWhile (\<lambda>c. c \<noteq> quote) (drop 7 rest);
                    tail = dropWhile (\<lambda>c. c \<noteq> quote) (drop 7 rest)
                in if tail = quote # lit '','' \<or> tail = quote # lit '','' @ [newline]
                   then Some (key, amount)
                   else None))"

text \<open>The loop of lines 168 and 169: each match stores its float under its key.\<close>

fun store_prices :: "env \<Rightarrow> (pystr \<times> pystr) list \<Rightarrow> (pystr \<Rightarrow> pyfloat option) \<Rightarrow> pyerror + (pystr \<Rightarrow> pyfloat option)" where
  "store_prices E [] prices = Inr prices"
| "store_prices E ((key, amount) # ms) prices =
     (case py_float E amount of
        None \<Rightarrow> Inl ValueError
      | Some x \<Rightarrow> store_prices E ms (prices(key \<mapsto> x)))"

text \<open>The matches of lines 164 to 167: the groups of the lines that match, in their order.\<close>

definition price_matches :: "pystr \<Rightarrow> (pystr \<times> pystr) list" where
  "price_matches text = List.map_filter match_price_line (splitlines text)"

definition transa_prices :: "env \<Rightarrow> pystr \<Rightarrow> pyerror + prices" where
  "transa_prices E text =
     (case store_prices E (price_matches text) Map.empty of
        Inl e \<Rightarrow> Inl e
      | Inr prices \<Rightarrow>
          (case prices (lit ''promo'') of
             None \<Rightarrow> Inl KeyError
           | Some promo \<Rightarrow> Inr (promo, prices (lit ''base''))))"

definition check_transa :: "env \<Rightarrow> pystr \<Rightarrow> world \<Rightarrow> (pyerror + prices) \<times> world" where
  "check_transa E url w =
     (case fetch E url True w of
        (Inl e, w') \<Rightarrow> (Inl e, w')
      | (Inr (RawText text), w') \<Rightarrow> (transa_prices E text, w')
      | (Inr (Soup soup), w') \<Rightarrow> (Inl AttributeError, w'))"

section \<open>The shop registry\<close>

text \<open>Keys \<open>name\<close> and \<open>check_func\<close> of a shop; \<open>name\<close> and \<open>shops\<close> of a product.\<close>

record shop =
  name :: pystr
  check_func :: pyval

record product =
  product_name :: pystr
  product_shops :: "(pystr \<times> pystr) list"

text \<open>
  The configuration: \<open>shops\<close> is a dictionary from shop identifier to shop, \<open>products\<close> a
  list. A dictionary is an association list in insertion order, its keys distinct. Every
  shop entry is a dictionary of its own: no two identifiers share one object.
\<close>

record config =
  shops :: "(pystr \<times> shop) list"
  products :: "product list"

definition extractor_name :: "extractor \<Rightarrow> pystr" where
  "extractor_name x =
     (case x of
        Galaxus \<Rightarrow> lit ''check_galaxus''
      | Baechli \<Rightarrow> lit ''check_baechli''
      | Intersport \<Rightarrow> lit ''check_intersport''
      | Primal \<Rightarrow> lit ''check_primal''
      | Transa \<Rightarrow> lit ''check_transa'')"

text \<open>
  What the module's own statements bind at top level, in the order of the file: the
  imports, \<open>USER_AGENT\<close> and the functions.
\<close>

definition module_bindings :: "(pystr \<times> pyval) list" where
  "module_bindings =
     [(lit ''re'', PObject (lit ''module re'')),
      (lit ''sys'', PObject (lit ''module sys'')),
      (lit ''Optional'', PObject (lit ''typing.Optional'')),
      (lit ''Tuple'', PObject (lit ''typing.Tuple'')),
      (lit ''BeautifulSoup'', PObject (lit ''class BeautifulSoup'')),
      (lit ''docopt'', PObject (lit ''function docopt'')),
      (lit ''requests'', PObject (lit ''module requests'')),
      (lit ''yaml'', PObject (lit ''module yaml'')),
      (lit ''USER_AGENT'',
         PStr (lit ''Mozilla/5.0 (X11; Linux x86_64; rv:74.0) Gecko/20100101 Firefox/74.0'')),
      (lit ''fetch'', PFetch),
      (lit ''check_galaxus'', PExtractor Galaxus),
      (lit ''check_baechli'', PExtractor Baechli),
      (lit ''check_intersport'', PExtractor Intersport),
      (lit ''check_primal'', PExtractor Primal),
      (lit ''check_transa'', PExtractor Transa),
      (lit ''_load_check_fn'', PObject (lit ''function _load_check_fn'')),
      (lit ''main'', PObject (lit ''function main''))]"

text \<open>
  \<^verbatim>\<open>globals().get(key)\<close>: the keys of the namespace are strings, so any other hashable key
  finds nothing, and an unhashable one is a TypeError.
\<close>

definition globals_get :: "env \<Rightarrow> pyval \<Rightarrow> pyerror + pyval" where
  "globals_get E key =
     (case key of
        PStr s \<Rightarrow>
          (case map_of module_bindings s of
             Some v \<Rightarrow> Inr v
           | None \<Rightarrow> (case extra_globals E s of Some v \<Rightarrow> Inr v | None \<Rightarrow> Inr PNone))
      | PUnhashable d \<Rightarrow> Inl TypeError
      | _ \<Rightarrow> Inr PNone)"

text \<open>\<^verbatim>\<open>_load_check_fn\<close>: the shop it returns is the shop it was given, updated in place.\<close>

definition load_check_fn :: "env \<Rightarrow> shop \<Rightarrow> pyerror + shop" where
  "load_check_fn E s =
     (case globals_get E (check_func s) of
        Inl e \<Rightarrow> Inl e
      | Inr func \<Rightarrow>
          if func = PNone then Inl (CheckFuncNotFound (check_func s))
          else Inr (s\<lparr>check_func := func\<rparr>))"

text \<open>
  The dictionary comprehension of \<^verbatim>\<open>main\<close>. Its second result is the \<open>shops\<close> dictionary
  of the configuration afterwards: \<^verbatim>\<open>_load_check_fn\<close> has written into the shops it
  reached, also when a later one raises.
\<close>

fun load_shops :: "env \<Rightarrow> (pystr \<times> shop) list \<Rightarrow> (pyerror + (pystr \<times> shop) list) \<times> (pystr \<times> shop) list" where
  "load_shops E [] = (Inr [], [])"
| "load_shops E ((k, v) # rest) =
     (case load_check_fn E v of
        Inl e \<Rightarrow> (Inl e, (k, v) # rest)
      | Inr v' \<Rightarrow>
          (case load_shops E rest of
             (Inl e, rest') \<Rightarrow> (Inl e, (k, v') # rest')
           | (Inr loaded, rest') \<Rightarrow> (Inr ((k, v') # loaded), (k, v') # rest')))"

section \<open>The reporter\<close>

text \<open>
  \<^verbatim>\<open>shop['check_func'](url)\<close>, up to where \<^verbatim>\<open>prices[0]\<close> is read. A check function runs;
  \<^verbatim>\<open>fetch\<close> sends its request and returns a document that has no item 0; a string, None
  or a dictionary cannot be called.
\<close>

definition call_check_func :: "pyval \<Rightarrow> env \<Rightarrow> pystr \<Rightarrow> world \<Rightarrow> (pyerror + prices) \<times> world" where
  "call_check_func func E url w =
     (case func of
        PExtractor Galaxus \<Rightarrow> check_galaxus E url w
      | PExtractor Baechli \<Rightarrow> check_baechli E url w
      | PExtractor Intersport \<Rightarrow> check_intersport E url w
      | PExtractor Primal \<Rightarrow> check_primal E url w
      | PExtractor Transa \<Rightarrow> check_transa E url w
      | PFetch \<Rightarrow>
          (case fetch E url False w of
             (Inl e, w') \<Rightarrow> (Inl e, w')
           | (Inr soup, w') \<Rightarrow> (Inl KeyError, w'))
      | PObject d \<Rightarrow> (Inl NotAnExtractor, w)
      | _ \<Rightarrow> (Inl TypeError, w))"

text \<open>Lines 197 to 202: the line of one shop.\<close>

definition report_prices :: "pystr \<Rightarrow> prices \<Rightarrow> world \<Rightarrow> (pyerror + unit) \<times> world" where
  "report_prices shop_name p w =
     (let w1 = print (lit ''  '' @ shop_name @ lit '': '' @ format_2f (fst p) @ lit '' CHF'') w
      in case snd p of
           None \<Rightarrow> (Inr (), print [newline] w1)
         | Some regular \<Rightarrow>
             if py_gt regular (fst p)
             then (Inr (), print (lit '' (statt '' @ format_2f regular @ lit '' CHF)'' @ [newline]) w1)
             else (Inl AssertionError, w1))"

text \<open>The inner loop, over the shops of one product.\<close>

fun check_shops :: "env \<Rightarrow> (pystr \<times> shop) list \<Rightarrow> (pystr \<times> pystr) list \<Rightarrow> world \<Rightarrow> (pyerror + unit) \<times> world" where
  "check_shops E loaded [] w = (Inr (), w)"
| "check_shops E loaded ((shop_id, url) # rest) w =
     (case map_of loaded shop_id of
        None \<Rightarrow> (Inl KeyError, w)
      | Some s \<Rightarrow>
          (case call_check_func (check_func s) E url w of
             (Inl e, w1) \<Rightarrow> (Inl e, w1)
           | (Inr p, w1) \<Rightarrow>
               (case report_prices (name s) p w1 of
                  (Inl e, w2) \<Rightarrow> (Inl e, w2)
                | (Inr u, w2) \<Rightarrow> check_shops E loaded rest w2)))"

text \<open>The outer loop, over the products.\<close>

fun check_products :: "env \<Rightarrow> (pystr \<times> shop) list \<Rightarrow> product list \<Rightarrow> world \<Rightarrow> (pyerror + unit) \<times> world" where
  "check_products E loaded [] w = (Inr (), w)"
| "check_products E loaded (p # ps) w =
     (case check_shops E loaded (product_shops p)
             (print (lit ''Checking '' @ product_name p @ lit '':'' @ [newline]) w) of
        (Inl e, w1) \<Rightarrow> (Inl e, w1)
      | (Inr u, w1) \<Rightarrow> check_products E loaded ps (print [newline] w1))"

text \<open>
  \<^verbatim>\<open>main(config)\<close>: how the run ended, the configuration as the run left it, and the
  world.
\<close>

definition main :: "env \<Rightarrow> config \<Rightarrow> world \<Rightarrow> (pyerror + unit) \<times> config \<times> world" where
  "main E cfg w =
     (case load_shops E (shops cfg) of
        (Inl e, shops') \<Rightarrow> (Inl e, cfg\<lparr>shops := shops'\<rparr>, w)
      | (Inr loaded, shops') \<Rightarrow>
          (case check_products E loaded (products cfg) w of
             (r, w') \<Rightarrow> (r, cfg\<lparr>shops := shops'\<rparr>, w')))"

section \<open>Notions used in the properties\<close>

text \<open>A world after more output and more requests.\<close>

definition extend :: "pystr \<Rightarrow> pystr list \<Rightarrow> world \<Rightarrow> world" where
  "extend out reqs w = w\<lparr>stdout := stdout w @ out, requests_log := requests_log w @ reqs\<rparr>"

definition empty_world :: world where
  "empty_world = \<lparr>stdout = [], requests_log = []\<rparr>"

text \<open>What a fetch and a check function return, whatever was printed or requested before.\<close>

definition fetch_result :: "env \<Rightarrow> pystr \<Rightarrow> bool \<Rightarrow> pyerror + fetched" where
  "fetch_result E url raw = fst (fetch E url raw empty_world)"

definition check_result :: "pyval \<Rightarrow> env \<Rightarrow> pystr \<Rightarrow> pyerror + prices" where
  "check_result func E url = fst (call_check_func func E url empty_world)"

definition sent :: "pyval \<Rightarrow> pystr \<Rightarrow> pystr list" where
  "sent func url = (case func of PExtractor x \<Rightarrow> [url] | PFetch \<Rightarrow> [url] | _ \<Rightarrow> [])"

text \<open>The parts of a shop's line, and the line.\<close>

definition line_start :: "pystr \<Rightarrow> pyfloat \<Rightarrow> pystr" where
  "line_start shop_name current =
     lit ''  '' @ shop_name @ lit '': '' @ format_2f current @ lit '' CHF''"

definition statt :: "pyfloat \<Rightarrow> pystr" where
  "statt regular = lit '' (statt '' @ format_2f regular @ lit '' CHF)''"

definition shop_line :: "pystr \<Rightarrow> prices \<Rightarrow> pystr" where
  "shop_line shop_name p =
     line_start shop_name (fst p)
     @ (case snd p of None \<Rightarrow> [] | Some regular \<Rightarrow> statt regular)
     @ [newline]"

text \<open>The block of a product in the report of a run that succeeds.\<close>

definition line_of :: "env \<Rightarrow> (pystr \<times> shop) list \<Rightarrow> pystr \<times> pystr \<Rightarrow> pystr" where
  "line_of E loaded item =
     (case map_of loaded (fst item) of
        None \<Rightarrow> []
      | Some s \<Rightarrow>
          (case check_result (check_func s) E (snd item) of
             Inl e \<Rightarrow> []
           | Inr p \<Rightarrow> shop_line (name s) p))"

definition product_block :: "env \<Rightarrow> (pystr \<times> shop) list \<Rightarrow> product \<Rightarrow> pystr" where
  "product_block E loaded p =
     lit ''Checking '' @ product_name p @ lit '':'' @ [newline]
     @ concat (map (line_of E loaded) (product_shops p))
     @ [newline]"

text \<open>The elements that \<^verbatim>\<open>check_intersport\<close> hands to \<^verbatim>\<open>_get_price\<close>.\<close>

definition price_elements :: "node \<Rightarrow> node list" where
  "price_elements prices =
     (case (find prices (Some (lit ''del'')) [] False, find prices (Some (lit ''ins'')) [] False) of
        (Some reg, Some cur) \<Rightarrow> [cur, reg]
      | _ \<Rightarrow> [prices])"

text \<open>The price text of an element: the text of the first element of class \<open>amount\<close> below it.\<close>

definition price_text :: "node \<Rightarrow> pystr option" where
  "price_text element =
     (case find_all element None [(lit ''class'', lit ''amount'')] True of
        [] \<Rightarrow> None
      | amount # others \<Rightarrow> Some (get_text amount))"

text \<open>The currency prefix of a price text: what stands before the first no-break space.\<close>

definition currency_prefix :: "pystr \<Rightarrow> pystr" where
  "currency_prefix s = takeWhile (\<lambda>c. c \<noteq> nbsp) s"

text \<open>The amount that the last line with a given key carries.\<close>

definition last_amount :: "pystr \<Rightarrow> (pystr \<times> pystr) list \<Rightarrow> pystr option" where
  "last_amount key ms =
     (case filter (\<lambda>m. fst m = key) ms of [] \<Rightarrow> None | x # xs \<Rightarrow> Some (snd (last (x # xs))))"

text \<open>How a shop entry of the configuration and the entry after a run are related.\<close>

definition shop_after :: "env \<Rightarrow> pystr \<times> shop \<Rightarrow> pystr \<times> shop \<Rightarrow> bool" where
  "shop_after E before after \<longleftrightarrow>
     fst after = fst before \<and> name (snd after) = name (snd before)
     \<and> (check_func (snd after) = check_func (snd before)
        \<or> globals_get E (check_func (snd before)) = Inr (check_func (snd after)))"

section \<open>Sample inputs\<close>

text \<open>The floats of some decimal strings, as \<^verbatim>\<open>float()\<close> rounds them.\<close>

definition sample_float :: "pystr \<Rightarrow> pyfloat option" where
  "sample_float s =
     map_of
       [(lit ''49'', Fin False 49 0),
        (lit ''72.4'', Fin False 2547348539231437 (- 45)),
        (lit ''629.90'', Fin False 5540658994688819 (- 43)),
        (lit ''899.90'', Fin False 7915604110684979 (- 43)),
        (lit ''379.00'', Fin False 379 0),
        (lit ''299.90'', Fin False 2637948297360179 (- 43)),
        (lit ''29.00'', Fin False 29 0)] s"

definition meta :: "pystr \<Rightarrow> pystr \<Rightarrow> node" where
  "meta property content =
     Tag (lit ''meta'') [(lit ''content'', AStr content), (lit ''property'', AStr property)] []"

definition galaxus_page :: node where
  "galaxus_page =
     Tag (lit ''[document]'') []
       [Tag (lit ''html'') []
          [Tag (lit ''head'') []
             [meta (lit ''product:price:amount'') (lit ''49''),
              meta (lit ''og:price:standard_amount'') (lit ''72.4'')],
           Tag (lit ''body'') [] [NavigableString (lit ''Widget'')]]]"

definition plain_page :: node where
  "plain_page =
     Tag (lit ''[document]'') []
       [Tag (lit ''html'') []
          [Tag (lit ''head'') [] [meta (lit ''product:price:amount'') (lit ''49'')],
           Tag (lit ''body'') [] [NavigableString (lit ''Widget'')]]]"

definition swapped_page :: node where
  "swapped_page =
     Tag (lit ''[document]'') []
       [Tag (lit ''html'') []
          [Tag (lit ''head'') []
             [meta (lit ''product:price:amount'') (lit ''72.4''),
              meta (lit ''og:price:standard_amount'') (lit ''49'')],
           Tag (lit ''body'') [] [NavigableString (lit ''Widget'')]]]"

definition amount_span :: "pystr \<Rightarrow> pystr \<Rightarrow> node" where
  "amount_span currency amount =
     Tag (lit ''span'') [(lit ''class'', AList [lit ''woocommerce-Price-amount'', lit ''amount''])]
       [Tag (lit ''span'') [(lit ''class'', AList [lit ''woocommerce-Price-currencySymbol''])]
          [NavigableString currency],
        NavigableString (nbsp # amount)]"

definition price_box :: "node list \<Rightarrow> node" where
  "price_box price_children = Tag (lit ''p'') [(lit ''class'', AList [lit ''price''])] price_children"

definition summary_div :: "node list \<Rightarrow> node" where
  "summary_div price_children =
     Tag (lit ''div'') [(lit ''class'', AList [lit ''summary'', lit ''entry-summary''])]
       [Tag (lit ''h1'') [(lit ''class'', AList [lit ''product_title'', lit ''entry-title''])]
          [NavigableString (lit ''Lightning Ascent 22'')],
        price_box price_children]"

definition summary_page :: "node list \<Rightarrow> node" where
  "summary_page price_children = Tag (lit ''[document]'') [] [summary_div price_children]"

definition del_379 :: node where
  "del_379 = Tag (lit ''del'') [] [amount_span (lit ''CHF'') (lit ''379.00'')]"

definition ins_299 :: node where
  "ins_299 = Tag (lit ''ins'') [] [amount_span (lit ''CHF'') (lit ''299.90'')]"

definition rebate_page :: node where
  "rebate_page =
     summary_page [del_379, ins_299]"

definition no_rebate_page :: node where
  "no_rebate_page = summary_page [amount_span (lit ''CHF'') (lit ''29.00'')]"

definition euro_page :: node where
  "euro_page = summary_page [amount_span (lit ''EUR'') (lit ''29.00'')]"

definition promo_text :: pystr where
  "promo_text =
     lit ''price: {'' @ [newline]
     @ lit ''  promo: 'CHF 629.90','' @ [newline]
     @ lit ''  base: 'CHF 899.90','' @ [newline]
     @ lit ''},''"

definition non_promo_text :: pystr where
  "non_promo_text =
     lit ''price: {'' @ [newline]
     @ lit ''  base: '' @ [quote, quote] @ lit '','' @ [newline]
     @ lit ''  promo: 'CHF 629.90','' @ [newline]
     @ lit ''},''"

definition no_price_text :: pystr where
  "no_price_text = lit ''price: {'' @ [newline] @ lit ''},''"

text \<open>
  A server that answers some URLs, a parser that knows the pages above, and no names
  in the namespace beyond the module's own.
\<close>

definition sample_pages :: "(pystr \<times> response) list" where
  "sample_pages =
     [(lit ''https://shop.example/widget'', \<lparr>status_code = 200, resp_text = lit ''<galaxus>''\<rparr>),
      (lit ''https://shop.example/plain'', \<lparr>status_code = 200, resp_text = lit ''<plain>''\<rparr>),
      (lit ''https://shop.example/swapped'', \<lparr>status_code = 200, resp_text = lit ''<swapped>''\<rparr>),
      (lit ''https://shop.example/rebate'', \<lparr>status_code = 200, resp_text = lit ''<rebate>''\<rparr>),
      (lit ''https://shop.example/single'', \<lparr>status_code = 200, resp_text = lit ''<single>''\<rparr>),
      (lit ''https://shop.example/euro'', \<lparr>status_code = 200, resp_text = lit ''<euro>''\<rparr>),
      (lit ''https://shop.example/promo'', \<lparr>status_code = 200, resp_text = promo_text\<rparr>),
      (lit ''https://shop.example/nonpromo'', \<lparr>status_code = 200, resp_text = non_promo_text\<rparr>),
      (lit ''https://shop.example/noprice'', \<lparr>status_code = 200, resp_text = no_price_text\<rparr>),
      (lit ''https://shop.example/cached'', \<lparr>status_code = 304, resp_text = []\<rparr>)]"

definition sample_parser :: "pystr \<Rightarrow> node" where
  "sample_parser t =
     (case map_of
             [(lit ''<galaxus>'', galaxus_page),
              (lit ''<plain>'', plain_page),
              (lit ''<swapped>'', swapped_page),
              (lit ''<rebate>'', rebate_page),
              (lit ''<single>'', no_rebate_page),
              (lit ''<euro>'', euro_page)] t of
        Some page \<Rightarrow> page
      | None \<Rightarrow> Tag (lit ''[document]'') [] [])"

definition sample_env :: env where
  "sample_env =
     \<lparr>http_get = (\<lambda>url. case map_of sample_pages url of
                          Some r \<Rightarrow> Some r
                        | None \<Rightarrow> Some \<lparr>status_code = 404, resp_text = lit ''Not Found''\<rparr>),
      html_parser = sample_parser,
      py_float = sample_float,
      unicode_digit = (\<lambda>c. 48 \<le> c \<and> c \<le> 57),
      extra_globals = Map.empty\<rparr>"

definition galaxus_shop :: shop where
  "galaxus_shop = \<lparr>name = lit ''Galaxus'', check_func = PStr (lit ''check_galaxus'')\<rparr>"

definition galaxus_loaded :: "(pystr \<times> shop) list" where
  "galaxus_loaded = [(lit ''s1'', \<lparr>name = lit ''Galaxus'', check_func = PExtractor Galaxus\<rparr>)]"

definition sample_config :: config where
  "sample_config =
     \<lparr>shops = [(lit ''s1'', galaxus_shop)],
      products = [\<lparr>product_name = lit ''Widget'',
                   product_shops = [(lit ''s1'', lit ''https://shop.example/widget'')]\<rparr>]\<rparr>"

text \<open>A configuration whose shop names \<open>fetch\<close>, and one whose shop names no object at all.\<close>

definition fetch_config :: config where
  "fetch_config =
     \<lparr>shops = [(lit ''s1'', \<lparr>name = lit ''Shop'', check_func = PStr (lit ''fetch'')\<rparr>)],
      products = [\<lparr>product_name = lit ''Widget'',
                   product_shops = [(lit ''s1'', lit ''https://shop.example/widget'')]\<rparr>]\<rparr>"

definition unknown_config :: config where
  "unknown_config =
     \<lparr>shops = [(lit ''s1'', galaxus_shop),
               (lit ''s2'', \<lparr>name = lit ''Migros'', check_func = PStr (lit ''check_migros'')\<rparr>)],
      products = [\<lparr>product_name = lit ''Widget'',
                   product_shops = [(lit ''s1'', lit ''https://shop.example/widget'')]\<rparr>]\<rparr>"

section \<open>Properties\<close>

subsection \<open>What a run adds to the world\<close>

lemma extend_nothing: "extend [] [] w = w"
  by (simp add: extend_def)

lemma extend_extend: "extend o2 r2 (extend o1 r1 w) = extend (o1 @ o2) (r1 @ r2) w"
  by (simp add: extend_def)

lemma print_extend: "print s w = extend s [] w"
  by (simp add: print_def extend_def)

lemma fetch_frame: "fetch E url raw w = (fetch_result E url raw, extend [] [url] w)"
  by (simp add: fetch_def fetch_result_def extend_def empty_world_def Let_def
      split: option.splits)

lemma on_soup_frame: "on_soup E url w f = (fst (on_soup E url empty_world f), extend [] [url] w)"
  by (cases "fetch_result E url False") (auto simp: on_soup_def fetch_frame split: fetched.splits)

lemma check_transa_frame:
  "check_transa E url w = (fst (check_transa E url empty_world), extend [] [url] w)"
  by (cases "fetch_result E url True") (auto simp: check_transa_def fetch_frame split: fetched.splits)

lemma call_check_func_frame:
  "call_check_func func E url w = (check_result func E url, extend [] (sent func url) w)"
proof (cases func)
  case (PExtractor x)
  then show ?thesis
    using on_soup_frame [of E url w] check_transa_frame [of E url w]
    by (cases x) (simp_all add: check_result_def sent_def call_check_func_def check_galaxus_def
        check_baechli_def check_intersport_def check_primal_def)
next
  case PFetch
  then show ?thesis
    by (cases "fetch_result E url False")
       (simp_all add: check_result_def sent_def call_check_func_def fetch_frame)
qed (simp_all add: check_result_def sent_def call_check_func_def extend_nothing)

lemma report_prices_frame:
  "report_prices nm p w =
     (case snd p of
        None \<Rightarrow> (Inr (), extend (line_start nm (fst p) @ [newline]) [] w)
      | Some r \<Rightarrow>
          if py_gt r (fst p)
          then (Inr (), extend (line_start nm (fst p) @ statt r @ [newline]) [] w)
          else (Inl AssertionError, extend (line_start nm (fst p)) [] w))"
  by (simp add: report_prices_def print_extend extend_extend line_start_def statt_def Let_def
      split: option.splits)

lemma check_shops_frame:
  "\<exists>r out reqs. \<forall>w. check_shops E loaded items w = (r, extend out reqs w)"
proof (induction items)
  case Nil
  have "\<forall>w. check_shops E loaded [] w = (Inr (), extend [] [] w)"
    by (simp add: extend_nothing)
  then show ?case by blast
next
  case (Cons item items)
  obtain shop_id url where item: "item = (shop_id, url)" by (cases item)
  obtain r out reqs where rest: "\<And>w. check_shops E loaded items w = (r, extend out reqs w)"
    using Cons.IH by blast
  show ?case
  proof (cases "map_of loaded shop_id")
    case None
    then have "\<forall>w. check_shops E loaded (item # items) w = (Inl KeyError, extend [] [] w)"
      by (simp add: item extend_nothing)
    then show ?thesis by blast
  next
    case found: (Some s)
    show ?thesis
    proof (cases "check_result (check_func s) E url")
      case (Inl e)
      then have "\<forall>w. check_shops E loaded (item # items) w
                   = (Inl e, extend [] (sent (check_func s) url) w)"
        by (simp add: item found call_check_func_frame)
      then show ?thesis by blast
    next
      case (Inr p)
      show ?thesis
      proof (cases "snd p")
        case None
        then have "\<forall>w. check_shops E loaded (item # items) w
                     = (r, extend ((line_start (name s) (fst p) @ [newline]) @ out)
                                  (sent (check_func s) url @ reqs) w)"
          by (simp add: item found Inr call_check_func_frame report_prices_frame rest
              extend_extend)
        then show ?thesis by blast
      next
        case (Some regular)
        show ?thesis
        proof (cases "py_gt regular (fst p)")
          case True
          then have "\<forall>w. check_shops E loaded (item # items) w
                       = (r, extend ((line_start (name s) (fst p) @ statt regular @ [newline]) @ out)
                                    (sent (check_func s) url @ reqs) w)"
            by (simp add: item found Inr Some call_check_func_frame report_prices_frame rest
                extend_extend)
          then show ?thesis by blast
        next
          case False
          then have "\<forall>w. check_shops E loaded (item # items) w
                       = (Inl AssertionError,
                          extend (line_start (name s) (fst p)) (sent (check_func s) url) w)"
            by (simp add: item found Inr Some call_check_func_frame report_prices_frame
                extend_extend)
          then show ?thesis by blast
        qed
      qed
    qed
  qed
qed

lemma check_products_frame:
  "\<exists>r out reqs. \<forall>w. check_products E loaded ps w = (r, extend out reqs w)"
proof (induction ps)
  case Nil
  have "\<forall>w. check_products E loaded [] w = (Inr (), extend [] [] w)"
    by (simp add: extend_nothing)
  then show ?case by blast
next
  case (Cons p ps)
  obtain r out reqs where rest: "\<And>w. check_products E loaded ps w = (r, extend out reqs w)"
    using Cons.IH by blast
  obtain r1 out1 reqs1 where
    first: "\<And>w. check_shops E loaded (product_shops p) w = (r1, extend out1 reqs1 w)"
    using check_shops_frame by blast
  let ?head = "lit ''Checking '' @ product_name p @ lit '':'' @ [newline]"
  show ?case
  proof (cases r1)
    case (Inl e)
    then have "\<forall>w. check_products E loaded (p # ps) w = (Inl e, extend (?head @ out1) reqs1 w)"
      by (simp add: first print_extend extend_extend)
    then show ?thesis by blast
  next
    case (Inr u)
    then have "\<forall>w. check_products E loaded (p # ps) w
                 = (r, extend (?head @ out1 @ [newline] @ out) (reqs1 @ reqs) w)"
      by (simp add: first rest print_extend extend_extend)
    then show ?thesis by blast
  qed
qed

lemma main_frame:
  "\<exists>r cfg' out reqs. \<forall>w. main E cfg w = (r, cfg', extend out reqs w)"
proof (cases "load_shops E (shops cfg)")
  case (Pair res shops')
  show ?thesis
  proof (cases res)
    case (Inl e)
    then have "\<forall>w. main E cfg w = (Inl e, cfg\<lparr>shops := shops'\<rparr>, extend [] [] w)"
      by (simp add: main_def Pair extend_nothing)
    then show ?thesis by blast
  next
    case (Inr loaded)
    obtain r out reqs where
      run: "\<And>w. check_products E loaded (products cfg) w = (r, extend out reqs w)"
      using check_products_frame by blast
    have "\<forall>w. main E cfg w = (r, cfg\<lparr>shops := shops'\<rparr>, extend out reqs w)"
      by (simp add: main_def Pair Inr run)
    then show ?thesis by blast
  qed
qed

subsection \<open>The fetcher\<close>

text \<open>
  C7, as amended. A response with a status from 400 to 599 makes \<open>fetch\<close> raise HTTPError:
  the call returns neither text nor document, and it has sent its one request (no
  retry). A response with any other status, and so also a 1xx or 3xx one, is returned,
  as raw text or as a parsed document.
\<close>

theorem fetch_raises_on_error_status:
  assumes "http_get E url = Some r"
  shows "(400 \<le> status_code r \<and> status_code r < 600 \<longrightarrow>
            fetch E url raw w = (Inl (HTTPError (status_code r)), extend [] [url] w))
       \<and> (\<not> (400 \<le> status_code r \<and> status_code r < 600) \<longrightarrow>
            fetch E url raw w
              = (Inr (if raw then RawText (resp_text r) else Soup (html_parser E (resp_text r))),
                 extend [] [url] w))"
  using assms by (simp add: fetch_def raise_for_status_def extend_def Let_def)

lemma sample_missing: "http_get sample_env (lit ''https://shop.example/missing'')
    = Some \<lparr>status_code = 404, resp_text = lit ''Not Found''\<rparr>"
  by (simp add: sample_env_def sample_pages_def lit_def)

theorem fetch_raises_on_error_status_witness:
  "fetch sample_env (lit ''https://shop.example/missing'') False empty_world
     = (Inl (HTTPError 404), extend [] [lit ''https://shop.example/missing''] empty_world)"
  using fetch_raises_on_error_status [OF sample_missing, of False empty_world] by simp

text \<open>
  C7 as stated fails: the status 304 is not a 2xx status, and \<open>fetch\<close> returns a
  document for it.
\<close>

theorem fetch_returns_on_304:
  "map_option status_code (http_get sample_env (lit ''https://shop.example/cached'')) = Some 304
   \<and> fst (fetch sample_env (lit ''https://shop.example/cached'') False empty_world)
       = Inr (Soup (Tag (lit ''[document]'') [] []))"
  by (simp add: fetch_def raise_for_status_def sample_env_def sample_pages_def sample_parser_def
      lit_def Let_def)


subsection \<open>The extractors\<close>

lemma find_first: "find_all t nm attrs rec = x # xs \<Longrightarrow> find t nm attrs rec = Some x"
  by (simp add: find_def)

lemma find_nothing: "find_all t nm attrs rec = [] \<Longrightarrow> find t nm attrs rec = None"
  by (simp add: find_def)

lemma on_soup_fetched:
  "fetch E url False w = (Inr (Soup soup), w') \<Longrightarrow> on_soup E url w f = (f soup, w')"
  by (simp add: on_soup_def)

text \<open>
  C3. The page that \<open>check_galaxus\<close> fetches is parsed into \<open>soup\<close>; its \<open>meta\<close> elements
  with property \<open>product:price:amount\<close> start, in document order, with one of content \<open>c\<close>,
  which \<open>float\<close> reads as \<open>x\<close>. If the \<open>meta\<close> elements with property
  \<open>og:price:standard_amount\<close> start with one of content \<open>r\<close>, read as \<open>y\<close>, the result is
  \<open>(x, y)\<close> with the regular price present; if the document has no such element, the
  result is \<open>(x, None)\<close>.
\<close>

theorem check_galaxus_prices:
  assumes "fetch E url False w = (Inr (Soup soup), w')"
    and "find_all soup (Some (lit ''meta'')) [(lit ''property'', lit ''product:price:amount'')] True
           = current_meta # further"
    and "get_attr current_meta (lit ''content'') = Some (AStr c)"
    and "py_float E c = Some x"
  shows "(\<forall>standard_meta others r y.
            find_all soup (Some (lit ''meta''))
              [(lit ''property'', lit ''og:price:standard_amount'')] True = standard_meta # others
            \<longrightarrow> get_attr standard_meta (lit ''content'') = Some (AStr r)
            \<longrightarrow> py_float E r = Some y
            \<longrightarrow> check_galaxus E url w = (Inr (x, Some y), w'))
       \<and> (find_all soup (Some (lit ''meta''))
              [(lit ''property'', lit ''og:price:standard_amount'')] True = []
            \<longrightarrow> check_galaxus E url w = (Inr (x, None), w'))"
proof -
  have current: "content_float E
      (find soup (Some (lit ''meta'')) [(lit ''property'', lit ''product:price:amount'')] True)
      = Inr x"
    using assms(2-4) by (simp add: content_float_def find_first)
  show ?thesis
    using assms(1) current
    by (auto simp: check_galaxus_def on_soup_fetched galaxus_prices_def find_first find_nothing)
qed

lemmas sample_simps =
  sample_env_def sample_pages_def sample_parser_def sample_float_def galaxus_page_def
  plain_page_def swapped_page_def meta_def lit_def fetch_def raise_for_status_def extend_def empty_world_def
  find_all_def Let_def

theorem check_galaxus_prices_witness:
  "check_galaxus sample_env (lit ''https://shop.example/widget'') empty_world
     = (Inr (Fin False 49 0, Some (Fin False 2547348539231437 (- 45))),
        extend [] [lit ''https://shop.example/widget''] empty_world)
   \<and> check_galaxus sample_env (lit ''https://shop.example/plain'') empty_world
     = (Inr (Fin False 49 0, None), extend [] [lit ''https://shop.example/plain''] empty_world)"
proof -
  let ?current = "meta (lit ''product:price:amount'') (lit ''49'')"
  let ?standard = "meta (lit ''og:price:standard_amount'') (lit ''72.4'')"
  have f1: "fetch sample_env (lit ''https://shop.example/widget'') False empty_world
      = (Inr (Soup galaxus_page), extend [] [lit ''https://shop.example/widget''] empty_world)"
    by (simp add: sample_simps)
  have f2: "fetch sample_env (lit ''https://shop.example/plain'') False empty_world
      = (Inr (Soup plain_page), extend [] [lit ''https://shop.example/plain''] empty_world)"
    by (simp add: sample_simps)
  have c1: "find_all galaxus_page (Some (lit ''meta''))
      [(lit ''property'', lit ''product:price:amount'')] True = ?current # []"
    by (simp add: sample_simps)
  have c2: "find_all plain_page (Some (lit ''meta''))
      [(lit ''property'', lit ''product:price:amount'')] True = ?current # []"
    by (simp add: sample_simps)
  have s1: "find_all galaxus_page (Some (lit ''meta''))
      [(lit ''property'', lit ''og:price:standard_amount'')] True = ?standard # []"
    by (simp add: sample_simps)
  have s2: "find_all plain_page (Some (lit ''meta''))
      [(lit ''property'', lit ''og:price:standard_amount'')] True = []"
    by (simp add: sample_simps)
  have a1: "get_attr ?current (lit ''content'') = Some (AStr (lit ''49''))"
    by (simp add: sample_simps)
  have a2: "get_attr ?standard (lit ''content'') = Some (AStr (lit ''72.4''))"
    by (simp add: sample_simps)
  have x: "py_float sample_env (lit ''49'') = Some (Fin False 49 0)"
    by (simp add: sample_simps)
  have y: "py_float sample_env (lit ''72.4'') = Some (Fin False 2547348539231437 (- 45))"
    by (simp add: sample_simps)
  show ?thesis
    using check_galaxus_prices [OF f1 c1 a1 x] check_galaxus_prices [OF f2 c2 a1 x] s1 s2 a2 y
    by blast
qed


lemma split_no_sep: "sep \<notin> set s \<Longrightarrow> split sep s = [s]"
  by (induction s) auto

lemma split_at_sep: "sep \<notin> set p \<Longrightarrow> split sep (p @ sep # q) = p # split sep q"
  by (induction p) auto

lemma split_not_Nil: "split sep s \<noteq> []"
  by (induction s) (auto split: list.splits)

lemma hd_split: "hd (split sep s) = takeWhile (\<lambda>c. c \<noteq> sep) s"
  using split_not_Nil [of sep] by (induction s) (auto split: list.splits)

lemma get_price_amount:
  assumes "price_text element = Some (lit ''CHF'' @ nbsp # amount)"
    and "nbsp \<notin> set amount"
    and "py_float E amount = Some x"
  shows "get_price E element = Inr x"
proof -
  obtain a others where
    found: "find_all element None [(lit ''class'', lit ''amount'')] True = a # others"
    and its_text: "get_text a = lit ''CHF'' @ nbsp # amount"
    using assms(1) by (auto simp: price_text_def split: list.splits)
  have "nbsp \<notin> set (lit ''CHF'')"
    by (simp add: lit_def nbsp_def)
  then have "split nbsp (get_text a) = [lit ''CHF'', amount]"
    using assms(2) by (simp add: its_text split_at_sep split_no_sep)
  then show ?thesis
    using assms(3) by (simp add: get_price_def find_first [OF found])
qed

lemma get_price_assertion:
  assumes "price_text element = Some t"
    and "currency_prefix t \<noteq> lit ''CHF''"
  shows "get_price E element = Inl AssertionError"
proof -
  obtain a others where
    found: "find_all element None [(lit ''class'', lit ''amount'')] True = a # others"
    and its_text: "get_text a = t"
    using assms(1) by (auto simp: price_text_def split: list.splits)
  show ?thesis
    using assms(2)
    by (simp add: get_price_def find_first [OF found] its_text hd_split currency_prefix_def)
qed

lemma intersport_container:
  assumes "find_all soup (Some (lit ''div'')) [(lit ''class'', lit ''entry-summary'')] True
             = summary # others"
    and "find_all summary None [(lit ''class'', lit ''price'')] True = prices # others'"
  shows "intersport_prices E soup =
     (case (find prices (Some (lit ''del'')) [] False, find prices (Some (lit ''ins'')) [] False) of
        (Some reg, Some cur) \<Rightarrow>
          (case get_price E cur of
             Inl e \<Rightarrow> Inl e
           | Inr c \<Rightarrow> (case get_price E reg of Inl e \<Rightarrow> Inl e | Inr r \<Rightarrow> Inr (c, Some r)))
      | _ \<Rightarrow> (case get_price E prices of Inl e \<Rightarrow> Inl e | Inr c \<Rightarrow> Inr (c, None)))"
  by (simp add: intersport_prices_def find_first [OF assms(1)] find_first [OF assms(2)])

text \<open>
  C4. The page that \<open>check_intersport\<close> fetches is parsed into \<open>soup\<close>, whose first \<open>div\<close> of
  class \<open>entry-summary\<close> has \<open>prices\<close> as its first element of class \<open>price\<close>. If \<open>prices\<close>
  has a \<open>del\<close> child and an \<open>ins\<close> child, each with a price text made of \<open>CHF\<close>, a no-break
  space and an amount, the result is the amount of the \<open>ins\<close> element and the amount of the
  \<open>del\<close> element. If \<open>prices\<close> has no \<open>del\<close> child or no \<open>ins\<close> child, and its own price
  text is \<open>CHF\<close>, a no-break space and an amount, the result is that amount and no
  regular price.
\<close>

theorem check_intersport_prices:
  assumes "fetch E url False w = (Inr (Soup soup), w')"
    and "find_all soup (Some (lit ''div'')) [(lit ''class'', lit ''entry-summary'')] True
           = summary # others"
    and "find_all summary None [(lit ''class'', lit ''price'')] True = prices # others'"
  shows "(\<forall>reg regs cur curs amount_ins amount_del c r.
            find_all prices (Some (lit ''del'')) [] False = reg # regs
            \<longrightarrow> find_all prices (Some (lit ''ins'')) [] False = cur # curs
            \<longrightarrow> price_text cur = Some (lit ''CHF'' @ nbsp # amount_ins)
            \<longrightarrow> price_text reg = Some (lit ''CHF'' @ nbsp # amount_del)
            \<longrightarrow> nbsp \<notin> set amount_ins \<longrightarrow> nbsp \<notin> set amount_del
            \<longrightarrow> py_float E amount_ins = Some c \<longrightarrow> py_float E amount_del = Some r
            \<longrightarrow> check_intersport E url w = (Inr (c, Some r), w'))
       \<and> (\<forall>amount x.
            (find_all prices (Some (lit ''del'')) [] False = []
               \<or> find_all prices (Some (lit ''ins'')) [] False = [])
            \<longrightarrow> price_text prices = Some (lit ''CHF'' @ nbsp # amount)
            \<longrightarrow> nbsp \<notin> set amount
            \<longrightarrow> py_float E amount = Some x
            \<longrightarrow> check_intersport E url w = (Inr (x, None), w'))"
proof (intro conjI allI impI)
  fix reg regs cur curs amount_ins amount_del c r
  assume "find_all prices (Some (lit ''del'')) [] False = reg # regs"
    and "find_all prices (Some (lit ''ins'')) [] False = cur # curs"
    and "price_text cur = Some (lit ''CHF'' @ nbsp # amount_ins)"
    and "price_text reg = Some (lit ''CHF'' @ nbsp # amount_del)"
    and "nbsp \<notin> set amount_ins" and "nbsp \<notin> set amount_del"
    and "py_float E amount_ins = Some c" and "py_float E amount_del = Some r"
  then show "check_intersport E url w = (Inr (c, Some r), w')"
    by (simp add: check_intersport_def on_soup_fetched [OF assms(1)]
        intersport_container [OF assms(2,3)] find_first get_price_amount)
next
  fix amount x
  assume pair: "find_all prices (Some (lit ''del'')) [] False = []
      \<or> find_all prices (Some (lit ''ins'')) [] False = []"
    and "price_text prices = Some (lit ''CHF'' @ nbsp # amount)"
    and "nbsp \<notin> set amount" and "py_float E amount = Some x"
  then have price: "get_price E prices = Inr x"
    by (simp add: get_price_amount)
  from pair have "find prices (Some (lit ''del'')) [] False = None
      \<or> find prices (Some (lit ''ins'')) [] False = None"
    by (auto simp: find_nothing)
  then show "check_intersport E url w = (Inr (x, None), w')"
    by (auto simp: check_intersport_def on_soup_fetched [OF assms(1)]
        intersport_container [OF assms(2,3)] price split: option.splits)
qed


lemmas page_simps =
  rebate_page_def no_rebate_page_def euro_page_def summary_page_def summary_div_def
  price_box_def del_379_def ins_299_def amount_span_def price_text_def get_text_def
  nbsp_def

theorem check_intersport_prices_witness:
  "check_intersport sample_env (lit ''https://shop.example/rebate'') empty_world
     = (Inr (Fin False 2637948297360179 (- 43), Some (Fin False 379 0)),
        extend [] [lit ''https://shop.example/rebate''] empty_world)
   \<and> check_intersport sample_env (lit ''https://shop.example/single'') empty_world
     = (Inr (Fin False 29 0, None), extend [] [lit ''https://shop.example/single''] empty_world)"
proof -
  let ?single = "[amount_span (lit ''CHF'') (lit ''29.00'')]"
  have f1: "fetch sample_env (lit ''https://shop.example/rebate'') False empty_world
      = (Inr (Soup rebate_page), extend [] [lit ''https://shop.example/rebate''] empty_world)"
    by (simp add: sample_simps)
  have f2: "fetch sample_env (lit ''https://shop.example/single'') False empty_world
      = (Inr (Soup no_rebate_page), extend [] [lit ''https://shop.example/single''] empty_world)"
    by (simp add: sample_simps)
  have d1: "find_all rebate_page (Some (lit ''div'')) [(lit ''class'', lit ''entry-summary'')] True
      = summary_div [del_379, ins_299] # []"
    by (simp add: sample_simps page_simps)
  have d2: "find_all no_rebate_page (Some (lit ''div'')) [(lit ''class'', lit ''entry-summary'')] True
      = summary_div ?single # []"
    by (simp add: sample_simps page_simps)
  have p1: "find_all (summary_div [del_379, ins_299]) None [(lit ''class'', lit ''price'')] True
      = price_box [del_379, ins_299] # []"
    by (simp add: sample_simps page_simps)
  have p2: "find_all (summary_div ?single) None [(lit ''class'', lit ''price'')] True
      = price_box ?single # []"
    by (simp add: sample_simps page_simps)
  have r1: "find_all (price_box [del_379, ins_299]) (Some (lit ''del'')) [] False = del_379 # []"
    by (simp add: sample_simps page_simps)
  have c1: "find_all (price_box [del_379, ins_299]) (Some (lit ''ins'')) [] False = ins_299 # []"
    by (simp add: sample_simps page_simps)
  have r2: "find_all (price_box ?single) (Some (lit ''del'')) [] False = []"
    by (simp add: sample_simps page_simps)
  have t1: "price_text ins_299 = Some (lit ''CHF'' @ nbsp # lit ''299.90'')"
    by (simp add: sample_simps page_simps)
  have t2: "price_text del_379 = Some (lit ''CHF'' @ nbsp # lit ''379.00'')"
    by (simp add: sample_simps page_simps)
  have t3: "price_text (price_box ?single) = Some (lit ''CHF'' @ nbsp # lit ''29.00'')"
    by (simp add: sample_simps page_simps)
  have n: "nbsp \<notin> set (lit ''299.90'')" "nbsp \<notin> set (lit ''379.00'')"
    "nbsp \<notin> set (lit ''29.00'')"
    by (simp_all add: lit_def nbsp_def)
  have x: "py_float sample_env (lit ''299.90'') = Some (Fin False 2637948297360179 (- 43))"
    "py_float sample_env (lit ''379.00'') = Some (Fin False 379 0)"
    "py_float sample_env (lit ''29.00'') = Some (Fin False 29 0)"
    by (simp_all add: sample_simps)
  show ?thesis
    using check_intersport_prices [OF f1 d1 p1] check_intersport_prices [OF f2 d2 p2]
      r1 c1 r2 t1 t2 t3 n x
    by blast
qed

text \<open>
  C6. A price element whose price text has a currency prefix (what stands before the
  first no-break space) other than \<open>CHF\<close> makes \<open>_get_price\<close> fail with its assertion, so
  no number is read from it; and when \<open>check_intersport\<close> reads such an element, the call
  ends in an exception and returns no prices.
\<close>

theorem get_price_checks_currency:
  assumes "price_text element = Some t"
    and "currency_prefix t \<noteq> lit ''CHF''"
  shows "get_price E element = Inl AssertionError
       \<and> (\<forall>url w w' soup summary others prices others'.
            fetch E url False w = (Inr (Soup soup), w')
            \<longrightarrow> find_all soup (Some (lit ''div'')) [(lit ''class'', lit ''entry-summary'')] True
                 = summary # others
            \<longrightarrow> find_all summary None [(lit ''class'', lit ''price'')] True = prices # others'
            \<longrightarrow> element \<in> set (price_elements prices)
            \<longrightarrow> (\<exists>e. check_intersport E url w = (Inl e, w')))"
proof (intro conjI allI impI)
  show failed: "get_price E element = Inl AssertionError"
    using assms by (rule get_price_assertion)
  fix url w w' soup summary others prices others'
  assume fetched: "fetch E url False w = (Inr (Soup soup), w')"
    and summary: "find_all soup (Some (lit ''div'')) [(lit ''class'', lit ''entry-summary'')] True
      = summary # others"
    and prices: "find_all summary None [(lit ''class'', lit ''price'')] True = prices # others'"
    and read: "element \<in> set (price_elements prices)"
  have "\<exists>e. intersport_prices E soup = Inl e"
    using read failed
    by (auto simp: intersport_container [OF summary prices] price_elements_def
        split: option.splits sum.splits)
  then show "\<exists>e. check_intersport E url w = (Inl e, w')"
    by (auto simp: check_intersport_def on_soup_fetched [OF fetched])
qed

theorem get_price_checks_currency_witness:
  "get_price sample_env (price_box [amount_span (lit ''EUR'') (lit ''29.00'')]) = Inl AssertionError
   \<and> (\<exists>e. check_intersport sample_env (lit ''https://shop.example/euro'') empty_world
            = (Inl e, extend [] [lit ''https://shop.example/euro''] empty_world))"
proof -
  let ?euro = "[amount_span (lit ''EUR'') (lit ''29.00'')]"
  have t: "price_text (price_box ?euro) = Some (lit ''EUR'' @ nbsp # lit ''29.00'')"
    by (simp add: sample_simps page_simps)
  have c: "currency_prefix (lit ''EUR'' @ nbsp # lit ''29.00'') \<noteq> lit ''CHF''"
    by (simp add: currency_prefix_def lit_def nbsp_def)
  have f: "fetch sample_env (lit ''https://shop.example/euro'') False empty_world
      = (Inr (Soup euro_page), extend [] [lit ''https://shop.example/euro''] empty_world)"
    by (simp add: sample_simps)
  have d: "find_all euro_page (Some (lit ''div'')) [(lit ''class'', lit ''entry-summary'')] True
      = summary_div ?euro # []"
    by (simp add: sample_simps page_simps)
  have p: "find_all (summary_div ?euro) None [(lit ''class'', lit ''price'')] True
      = price_box ?euro # []"
    by (simp add: sample_simps page_simps)
  have e: "price_box ?euro \<in> set (price_elements (price_box ?euro))"
    by (simp add: price_elements_def find_def sample_simps page_simps)
  show ?thesis
    using get_price_checks_currency [OF t c, of sample_env] f d p e by blast
qed


lemma last_amount_Cons:
  "last_amount k (m # ms) =
     (case last_amount k ms of
        Some a \<Rightarrow> Some a
      | None \<Rightarrow> if fst m = k then Some (snd m) else None)"
  by (simp add: last_amount_def split: list.splits)

lemma store_prices_ok:
  "\<forall>m\<in>set ms. py_float E (snd m) \<noteq> None \<Longrightarrow>
   store_prices E ms prices
     = Inr (\<lambda>k. case last_amount k ms of None \<Rightarrow> prices k | Some a \<Rightarrow> py_float E a)"
proof (induction ms arbitrary: prices)
  case Nil
  show ?case by (simp add: last_amount_def)
next
  case (Cons m ms)
  obtain k a where m: "m = (k, a)" by (cases m)
  obtain x where x: "py_float E a = Some x"
    using Cons.prems by (auto simp: m)
  have "store_prices E ms (prices(k \<mapsto> x))
      = Inr (\<lambda>j. case last_amount j ms of None \<Rightarrow> (prices(k \<mapsto> x)) j | Some b \<Rightarrow> py_float E b)"
    using Cons.prems by (intro Cons.IH) simp
  then show ?case
    by (auto simp: m x last_amount_Cons split: option.splits intro!: ext)
qed

lemma store_prices_bad:
  "\<exists>m\<in>set ms. py_float E (snd m) = None \<Longrightarrow> \<exists>e. store_prices E ms prices = Inl e"
proof (induction ms arbitrary: prices)
  case Nil
  then show ?case by simp
next
  case (Cons m ms)
  obtain k a where m: "m = (k, a)" by (cases m)
  show ?case
  proof (cases "py_float E a")
    case None
    then show ?thesis by (simp add: m)
  next
    case (Some x)
    then have "\<exists>m\<in>set ms. py_float E (snd m) = None"
      using Cons.prems by (auto simp: m)
    then have "\<exists>e. store_prices E ms (prices(k \<mapsto> x)) = Inl e"
      by (rule Cons.IH)
    then show ?thesis
      by (simp add: m Some)
  qed
qed

lemma last_amount_unique:
  assumes "(k, a) \<in> set ms"
    and "\<forall>m\<in>set ms. fst m = k \<longrightarrow> snd m = a"
  shows "last_amount k ms = Some a"
proof -
  let ?xs = "filter (\<lambda>m. fst m = k) ms"
  have nonempty: "?xs \<noteq> []"
    using assms(1) by (force simp: filter_empty_conv)
  then have "last ?xs \<in> set ?xs"
    by (rule last_in_set)
  then have "snd (last ?xs) = a"
    using assms(2) by auto
  then show ?thesis
    using nonempty by (cases ?xs) (simp_all add: last_amount_def)
qed

lemma transa_prices_ok:
  assumes "\<forall>m\<in>set (price_matches text). py_float E (snd m) \<noteq> None"
    and "last_amount (lit ''promo'') (price_matches text) = Some a"
    and "py_float E a = Some x"
  shows "transa_prices E text
     = Inr (x, case last_amount (lit ''base'') (price_matches text) of
                 None \<Rightarrow> None
               | Some b \<Rightarrow> py_float E b)"
  using assms(2,3) by (simp add: transa_prices_def store_prices_ok [OF assms(1)])

lemma transa_prices_no_promo:
  assumes "last_amount (lit ''promo'') (price_matches text) = None"
  shows "\<exists>e. transa_prices E text = Inl e"
proof (cases "\<forall>m\<in>set (price_matches text). py_float E (snd m) \<noteq> None")
  case True
  then show ?thesis
    using assms by (simp add: transa_prices_def store_prices_ok)
next
  case False
  then obtain e where "store_prices E (price_matches text) Map.empty = Inl e"
    using store_prices_bad [of "price_matches text" E Map.empty] by auto
  then show ?thesis
    by (simp add: transa_prices_def)
qed

lemma set_map_filter: "set (List.map_filter f xs) = {y. \<exists>x\<in>set xs. f x = Some y}"
  by (induction xs) (auto simp: map_filter_simps split: option.splits)

lemma set_price_matches:
  "set (price_matches text) = {m. \<exists>l\<in>set (splitlines text). match_price_line l = Some m}"
  by (simp add: price_matches_def set_map_filter)

lemma promo_line: "match_price_line (lit ''  promo: 'CHF 629.90','') = Some (lit ''promo'', lit ''629.90'')"
  by (simp add: match_price_line_def match_key_def is_space_def lit_def quote_def newline_def)

lemma base_line: "match_price_line (lit ''  base: 'CHF 899.90','') = Some (lit ''base'', lit ''899.90'')"
  by (simp add: match_price_line_def match_key_def is_space_def lit_def quote_def newline_def)

lemma empty_base_line: "match_price_line (lit ''  base: '' @ [quote, quote] @ lit '','') = None"
  by (simp add: match_price_line_def match_key_def is_space_def lit_def quote_def newline_def)


lemma last_amount_None: "last_amount k ms = None \<longleftrightarrow> (\<forall>m\<in>set ms. fst m \<noteq> k)"
proof -
  have "last_amount k ms = None \<longleftrightarrow> filter (\<lambda>m. fst m = k) ms = []"
    by (simp add: last_amount_def split: list.splits)
  then show ?thesis
    by (simp add: filter_empty_conv)
qed

lemma check_transa_fetched:
  "fetch E url True w = (Inr (RawText text), w') \<Longrightarrow> check_transa E url w = (transa_prices E text, w')"
  by (simp add: check_transa_def)

text \<open>
  C5. \<open>check_transa\<close> has fetched the raw text \<open>text\<close>. If its lines include the promo line
  with 629.90 and the base line with 899.90, and no other line matches the pattern, the
  result is the floats of 629.90 and 899.90. If no line matches with the key \<open>base\<close>, the
  last matching promo line has the amount \<open>a\<close>, and the amounts are floats, the result is
  the float of \<open>a\<close> and no regular price. A base line with an empty string does not match
  the pattern. If no line matches with the key \<open>promo\<close>, the call ends in an exception.
\<close>

theorem check_transa_prices:
  assumes "fetch E url True w = (Inr (RawText text), w')"
  shows "(\<forall>p b.
            lit ''  promo: 'CHF 629.90','' \<in> set (splitlines text)
            \<longrightarrow> lit ''  base: 'CHF 899.90','' \<in> set (splitlines text)
            \<longrightarrow> (\<forall>l\<in>set (splitlines text).
                   l \<noteq> lit ''  promo: 'CHF 629.90','' \<longrightarrow> l \<noteq> lit ''  base: 'CHF 899.90',''
                   \<longrightarrow> match_price_line l = None)
            \<longrightarrow> py_float E (lit ''629.90'') = Some p \<longrightarrow> py_float E (lit ''899.90'') = Some b
            \<longrightarrow> check_transa E url w = (Inr (p, Some b), w'))
       \<and> (\<forall>a x.
            (\<forall>l\<in>set (splitlines text). \<forall>amount. match_price_line l \<noteq> Some (lit ''base'', amount))
            \<longrightarrow> last_amount (lit ''promo'') (price_matches text) = Some a
            \<longrightarrow> (\<forall>m\<in>set (price_matches text). py_float E (snd m) \<noteq> None)
            \<longrightarrow> py_float E a = Some x
            \<longrightarrow> check_transa E url w = (Inr (x, None), w'))
       \<and> match_price_line (lit ''  base: '' @ [quote, quote] @ lit '','') = None
       \<and> ((\<forall>l\<in>set (splitlines text). \<forall>amount. match_price_line l \<noteq> Some (lit ''promo'', amount))
            \<longrightarrow> (\<exists>e. check_transa E url w = (Inl e, w')))"
proof (intro conjI allI impI)
  fix p b
  let ?promo = "lit ''  promo: 'CHF 629.90',''" and ?base = "lit ''  base: 'CHF 899.90',''"
  assume lines: "?promo \<in> set (splitlines text)" "?base \<in> set (splitlines text)"
    and others: "\<forall>l\<in>set (splitlines text). l \<noteq> ?promo \<longrightarrow> l \<noteq> ?base \<longrightarrow> match_price_line l = None"
    and floats: "py_float E (lit ''629.90'') = Some p" "py_float E (lit ''899.90'') = Some b"
  have matches: "set (price_matches text)
      = {(lit ''promo'', lit ''629.90''), (lit ''base'', lit ''899.90'')}"
  proof (intro set_eqI iffI)
    fix m
    assume "m \<in> set (price_matches text)"
    then obtain l where "l \<in> set (splitlines text)" "match_price_line l = Some m"
      by (auto simp: set_price_matches)
    then have "l = ?promo \<or> l = ?base"
      using others by fastforce
    then show "m \<in> {(lit ''promo'', lit ''629.90''), (lit ''base'', lit ''899.90'')}"
      using \<open>match_price_line l = Some m\<close> promo_line base_line by auto
  next
    fix m
    assume "m \<in> {(lit ''promo'', lit ''629.90''), (lit ''base'', lit ''899.90'')}"
    then show "m \<in> set (price_matches text)"
      using lines promo_line base_line by (auto simp: set_price_matches)
  qed
  have keys: "lit ''promo'' \<noteq> lit ''base''"
    by (simp add: lit_def)
  have promo: "last_amount (lit ''promo'') (price_matches text) = Some (lit ''629.90'')"
    using keys by (intro last_amount_unique) (auto simp: matches)
  have base: "last_amount (lit ''base'') (price_matches text) = Some (lit ''899.90'')"
    using keys by (intro last_amount_unique) (auto simp: matches)
  have "\<forall>m\<in>set (price_matches text). py_float E (snd m) \<noteq> None"
    using floats by (auto simp: matches)
  then have "transa_prices E text = Inr (p, Some b)"
    using promo base floats by (simp add: transa_prices_ok)
  then show "check_transa E url w = (Inr (p, Some b), w')"
    by (simp add: check_transa_fetched [OF assms])
next
  fix a x
  assume no_base: "\<forall>l\<in>set (splitlines text). \<forall>amount. match_price_line l \<noteq> Some (lit ''base'', amount)"
    and promo: "last_amount (lit ''promo'') (price_matches text) = Some a"
    and floats: "\<forall>m\<in>set (price_matches text). py_float E (snd m) \<noteq> None"
    and x: "py_float E a = Some x"
  have "last_amount (lit ''base'') (price_matches text) = None"
    using no_base by (fastforce simp: last_amount_None set_price_matches)
  then have "transa_prices E text = Inr (x, None)"
    using promo floats x by (simp add: transa_prices_ok)
  then show "check_transa E url w = (Inr (x, None), w')"
    by (simp add: check_transa_fetched [OF assms])
next
  show "match_price_line (lit ''  base: '' @ [quote, quote] @ lit '','') = None"
    by (rule empty_base_line)
next
  assume "\<forall>l\<in>set (splitlines text). \<forall>amount. match_price_line l \<noteq> Some (lit ''promo'', amount)"
  then have "last_amount (lit ''promo'') (price_matches text) = None"
    by (fastforce simp: last_amount_None set_price_matches)
  then have "\<exists>e. transa_prices E text = Inl e"
    by (rule transa_prices_no_promo)
  then show "\<exists>e. check_transa E url w = (Inl e, w')"
    by (simp add: check_transa_fetched [OF assms])
qed


lemmas text_simps =
  promo_text_def non_promo_text_def no_price_text_def splitlines_def is_linebreak_def
  newline_def quote_def lit_def

theorem check_transa_prices_witness:
  "check_transa sample_env (lit ''https://shop.example/promo'') empty_world
     = (Inr (Fin False 5540658994688819 (- 43), Some (Fin False 7915604110684979 (- 43))),
        extend [] [lit ''https://shop.example/promo''] empty_world)
   \<and> check_transa sample_env (lit ''https://shop.example/nonpromo'') empty_world
     = (Inr (Fin False 5540658994688819 (- 43), None),
        extend [] [lit ''https://shop.example/nonpromo''] empty_world)
   \<and> (\<exists>e. check_transa sample_env (lit ''https://shop.example/noprice'') empty_world
            = (Inl e, extend [] [lit ''https://shop.example/noprice''] empty_world))"
proof -
  have f1: "fetch sample_env (lit ''https://shop.example/promo'') True empty_world
      = (Inr (RawText promo_text), extend [] [lit ''https://shop.example/promo''] empty_world)"
    by (simp add: sample_simps)
  have f2: "fetch sample_env (lit ''https://shop.example/nonpromo'') True empty_world
      = (Inr (RawText non_promo_text), extend [] [lit ''https://shop.example/nonpromo''] empty_world)"
    by (simp add: sample_simps)
  have f3: "fetch sample_env (lit ''https://shop.example/noprice'') True empty_world
      = (Inr (RawText no_price_text), extend [] [lit ''https://shop.example/noprice''] empty_world)"
    by (simp add: sample_simps)
  have l1: "splitlines promo_text
      = [lit ''price: {'', lit ''  promo: 'CHF 629.90','', lit ''  base: 'CHF 899.90','', lit ''},'']"
    by (simp add: text_simps)
  have l2: "splitlines non_promo_text
      = [lit ''price: {'', lit ''  base: '' @ [quote, quote] @ lit '','',
         lit ''  promo: 'CHF 629.90','', lit ''},'']"
    by (simp add: text_simps)
  have l3: "splitlines no_price_text = [lit ''price: {'', lit ''},'']"
    by (simp add: text_simps)
  have m: "match_price_line (lit ''price: {'') = None" "match_price_line (lit ''},'') = None"
    by (simp_all add: match_price_line_def match_key_def is_space_def lit_def)
  have e: "match_price_line (lit ''  base: '' @ quote # quote # lit '','') = None"
    using empty_base_line by simp
  have m2: "price_matches non_promo_text = [(lit ''promo'', lit ''629.90'')]"
    by (simp add: price_matches_def l2 map_filter_simps m promo_line e)
  have x: "py_float sample_env (lit ''629.90'') = Some (Fin False 5540658994688819 (- 43))"
    "py_float sample_env (lit ''899.90'') = Some (Fin False 7915604110684979 (- 43))"
    by (simp_all add: sample_simps)
  have a: "lit ''  promo: 'CHF 629.90','' \<in> set (splitlines promo_text)"
    "lit ''  base: 'CHF 899.90','' \<in> set (splitlines promo_text)"
    "\<forall>l\<in>set (splitlines promo_text).
        l \<noteq> lit ''  promo: 'CHF 629.90','' \<longrightarrow> l \<noteq> lit ''  base: 'CHF 899.90',''
        \<longrightarrow> match_price_line l = None"
    by (simp_all add: l1 m)
  have b: "\<forall>l\<in>set (splitlines non_promo_text). \<forall>amount.
        match_price_line l \<noteq> Some (lit ''base'', amount)"
    "last_amount (lit ''promo'') (price_matches non_promo_text) = Some (lit ''629.90'')"
    "\<forall>m\<in>set (price_matches non_promo_text). py_float sample_env (snd m) \<noteq> None"
    by (simp_all add: l2 m m2 promo_line e last_amount_def x)
      (simp add: lit_def)
  have c: "\<forall>l\<in>set (splitlines no_price_text). \<forall>amount.
        match_price_line l \<noteq> Some (lit ''promo'', amount)"
    by (simp add: l3 m)
  show ?thesis
    using check_transa_prices [OF f1] check_transa_prices [OF f2] check_transa_prices [OF f3]
      a b c x
    by blast
qed


subsection \<open>The reporter\<close>

text \<open>
  C1. In the loop over a product's shops, let the check function of the next shop return
  a current and a regular price. If the regular price is not greater than the current
  one, the loop ends there with AssertionError, the other shops are not visited, and what
  was printed for the shop is the start of its line, without \<open>(statt ...)\<close>. If it is
  greater, no assertion fires: the line is completed and the loop goes on. An exception
  of the inner loop ends the loop over the products.
\<close>

theorem regular_price_assertion:
  assumes "map_of loaded shop_id = Some s"
    and "call_check_func (check_func s) E url w = (Inr (current, Some regular), w1)"
  shows "(\<not> py_gt regular current \<longrightarrow>
            check_shops E loaded ((shop_id, url) # rest) w
              = (Inl AssertionError, print (line_start (name s) current) w1))
       \<and> (py_gt regular current \<longrightarrow>
            check_shops E loaded ((shop_id, url) # rest) w
              = check_shops E loaded rest
                  (print (line_start (name s) current @ statt regular @ [newline]) w1))
       \<and> (\<forall>p ps w0 e w2.
            check_shops E loaded (product_shops p)
              (print (lit ''Checking '' @ product_name p @ lit '':'' @ [newline]) w0) = (Inl e, w2)
            \<longrightarrow> check_products E loaded (p # ps) w0 = (Inl e, w2))"
  using assms by (simp add: report_prices_frame print_extend)

lemmas check_simps =
  call_check_func_def check_galaxus_def on_soup_def galaxus_prices_def content_float_def
  find_def

theorem regular_price_assertion_witness:
  "check_shops sample_env galaxus_loaded [(lit ''s1'', lit ''https://shop.example/swapped'')]
       empty_world
     = (Inl AssertionError,
        print (line_start (lit ''Galaxus'') (Fin False 2547348539231437 (- 45)))
          (extend [] [lit ''https://shop.example/swapped''] empty_world))
   \<and> check_shops sample_env galaxus_loaded [(lit ''s1'', lit ''https://shop.example/widget'')]
       empty_world
     = (Inr (),
        print (line_start (lit ''Galaxus'') (Fin False 49 0)
               @ statt (Fin False 2547348539231437 (- 45)) @ [newline])
          (extend [] [lit ''https://shop.example/widget''] empty_world))"
proof -
  let ?s = "\<lparr>name = lit ''Galaxus'', check_func = PExtractor Galaxus\<rparr>"
  have s: "map_of galaxus_loaded (lit ''s1'') = Some ?s"
    by (simp add: galaxus_loaded_def)
  have c1: "call_check_func (check_func ?s) sample_env (lit ''https://shop.example/swapped'')
        empty_world
      = (Inr (Fin False 2547348539231437 (- 45), Some (Fin False 49 0)),
         extend [] [lit ''https://shop.example/swapped''] empty_world)"
    by (simp add: check_simps sample_simps)
  have c2: "call_check_func (check_func ?s) sample_env (lit ''https://shop.example/widget'')
        empty_world
      = (Inr (Fin False 49 0, Some (Fin False 2547348539231437 (- 45))),
         extend [] [lit ''https://shop.example/widget''] empty_world)"
    by (simp add: check_simps sample_simps)
  have g1: "\<not> py_gt (Fin False 49 0) (Fin False 2547348539231437 (- 45))"
    by (simp add: scaled_def signed_def)
  have g2: "py_gt (Fin False 2547348539231437 (- 45)) (Fin False 49 0)"
    by (simp add: scaled_def signed_def)
  show ?thesis
    using regular_price_assertion [OF s c1, of "[]"] regular_price_assertion [OF s c2, of "[]"]
      g1 g2
    by simp
qed


lemma report_prices_ok:
  "report_prices nm p w = (Inr u, w') \<Longrightarrow> w' = extend (shop_line nm p) [] w"
  by (auto simp: report_prices_frame shop_line_def split: option.splits if_splits)

lemma check_shops_ok:
  "check_shops E loaded items w = (Inr u, w') \<Longrightarrow>
   stdout w' = stdout w @ concat (map (line_of E loaded) items)"
proof (induction items arbitrary: w)
  case Nil
  then show ?case by simp
next
  case (Cons item items)
  obtain shop_id url where item: "item = (shop_id, url)" by (cases item)
  from Cons.prems obtain s where s: "map_of loaded shop_id = Some s"
    by (auto simp: item split: option.splits)
  from Cons.prems obtain p where p: "check_result (check_func s) E url = Inr p"
    by (cases "check_result (check_func s) E url") (auto simp: item s call_check_func_frame)
  let ?w1 = "extend [] (sent (check_func s) url) w"
  from Cons.prems obtain w2 where
    reported: "report_prices (name s) p ?w1 = (Inr (), w2)"
    and rest: "check_shops E loaded items w2 = (Inr u, w')"
    by (auto simp: item s p call_check_func_frame split: prod.splits sum.splits)
  have "w2 = extend (shop_line (name s) p) [] ?w1"
    using reported by (rule report_prices_ok)
  then have "stdout w2 = stdout w @ shop_line (name s) p"
    by (simp add: extend_def)
  moreover have "stdout w' = stdout w2 @ concat (map (line_of E loaded) items)"
    using rest by (rule Cons.IH)
  moreover have "line_of E loaded item = shop_line (name s) p"
    by (simp add: item line_of_def s p)
  ultimately show ?case
    by simp
qed

lemma check_products_ok:
  "check_products E loaded ps w = (Inr u, w') \<Longrightarrow>
   stdout w' = stdout w @ concat (map (product_block E loaded) ps)"
proof (induction ps arbitrary: w)
  case Nil
  then show ?case by simp
next
  case (Cons p ps)
  let ?w0 = "print (lit ''Checking '' @ product_name p @ lit '':'' @ [newline]) w"
  from Cons.prems obtain w1 where
    first: "check_shops E loaded (product_shops p) ?w0 = (Inr (), w1)"
    and rest: "check_products E loaded ps (print [newline] w1) = (Inr u, w')"
    by (auto split: prod.splits sum.splits)
  have "stdout w1 = stdout ?w0 @ concat (map (line_of E loaded) (product_shops p))"
    using first by (rule check_shops_ok)
  moreover have "stdout w' = stdout (print [newline] w1) @ concat (map (product_block E loaded) ps)"
    using rest by (rule Cons.IH)
  moreover have "product_block E loaded p
      = lit ''Checking '' @ product_name p @ lit '':'' @ [newline]
        @ concat (map (line_of E loaded) (product_shops p)) @ [newline]"
    by (simp add: product_block_def)
  ultimately show ?case
    by (simp add: print_def)
qed

lemma load_shops_loaded: "load_shops E ss = (Inr loaded, ss') \<Longrightarrow> loaded = ss'"
proof (induction ss arbitrary: loaded ss')
  case Nil
  then show ?case by simp
next
  case (Cons entry ss)
  obtain k v where entry: "entry = (k, v)" by (cases entry)
  from Cons.prems obtain v' l r where
    "load_shops E ss = (Inr l, r)" "loaded = (k, v') # l" "ss' = (k, v') # r"
    by (auto simp: entry split: sum.splits prod.splits)
  then show ?case
    using Cons.IH by simp
qed

lemma main_ok:
  assumes "main E cfg w = (Inr u, cfg', w')"
  shows "stdout w' = stdout w @ concat (map (product_block E (shops cfg')) (products cfg))"
proof -
  from assms obtain loaded where
    loaded: "load_shops E (shops cfg) = (Inr loaded, shops cfg')"
    and run: "check_products E loaded (products cfg) w = (Inr u, w')"
    by (auto simp: main_def split: prod.splits sum.splits)
  have "loaded = shops cfg'"
    using loaded by (rule load_shops_loaded)
  then show ?thesis
    using check_products_ok [OF run] by simp
qed

lemma format_49: "format_2f (Fin False 49 0) = lit ''49.00''"
  by (simp add: cents_def lit_def)

lemma format_72_4: "format_2f (Fin False 2547348539231437 (- 45)) = lit ''72.40''"
  by (simp add: cents_def round_half_even_def lit_def Let_def)

text \<open>
  C10. For a shop's result the reporter prints one line: two spaces, the shop's display
  name, a colon, the current price with two decimals and \<open>CHF\<close>; then \<open>(statt ... CHF)\<close>
  with the regular price with two decimals when there is a regular price (which the
  assertion lets pass), and nothing more when there is none. A finite price is printed
  with exactly two digits after the point. The output of a run that succeeds is, product
  by product, the \<open>Checking\<close> line, the lines of the product's shops and an empty line. The
  prices 49.0 and 72.4 give the line with \<open>49.00 CHF (statt 72.40 CHF)\<close>.
\<close>

theorem report_lines:
  "report_prices nm (current, None) w
     = (Inr (), print (lit ''  '' @ nm @ lit '': '' @ format_2f current @ lit '' CHF'' @ [newline]) w)
   \<and> (py_gt regular current \<longrightarrow>
        report_prices nm (current, Some regular) w
          = (Inr (), print (lit ''  '' @ nm @ lit '': '' @ format_2f current @ lit '' CHF''
                            @ lit '' (statt '' @ format_2f regular @ lit '' CHF)'' @ [newline]) w))
   \<and> (\<exists>d1 d2. d1 < 10 \<and> d2 < 10 \<and>
        format_2f (Fin neg m e)
          = (if neg then lit ''-'' else []) @ digits (cents m e div 100) @ lit ''.''
            @ [48 + d1, 48 + d2])
   \<and> (\<forall>cfg cfg' w'.
        main E cfg w = (Inr (), cfg', w')
        \<longrightarrow> stdout w' = stdout w @ concat (map (product_block E (shops cfg')) (products cfg)))
   \<and> shop_line nm (Fin False 49 0, Some (Fin False 2547348539231437 (- 45)))
       = lit ''  '' @ nm @ lit '': 49.00 CHF (statt 72.40 CHF)'' @ [newline]"
proof (intro conjI allI impI)
  show "report_prices nm (current, None) w
     = (Inr (), print (lit ''  '' @ nm @ lit '': '' @ format_2f current @ lit '' CHF'' @ [newline]) w)"
    by (simp add: report_prices_def print_def Let_def)
next
  assume "py_gt regular current"
  then show "report_prices nm (current, Some regular) w
      = (Inr (), print (lit ''  '' @ nm @ lit '': '' @ format_2f current @ lit '' CHF''
                        @ lit '' (statt '' @ format_2f regular @ lit '' CHF)'' @ [newline]) w)"
    by (simp add: report_prices_def print_def Let_def)
next
  have "cents m e mod 100 div 10 < 10" "cents m e mod 10 < 10"
    by simp_all
  then show "\<exists>d1 d2. d1 < 10 \<and> d2 < 10 \<and>
      format_2f (Fin neg m e)
        = (if neg then lit ''-'' else []) @ digits (cents m e div 100) @ lit ''.''
          @ [48 + d1, 48 + d2]"
    by (metis format_2f.simps(3))
next
  fix cfg cfg' w'
  assume "main E cfg w = (Inr (), cfg', w')"
  then show "stdout w' = stdout w @ concat (map (product_block E (shops cfg')) (products cfg))"
    by (rule main_ok)
next
  show "shop_line nm (Fin False 49 0, Some (Fin False 2547348539231437 (- 45)))
      = lit ''  '' @ nm @ lit '': 49.00 CHF (statt 72.40 CHF)'' @ [newline]"
  proof -
    have "line_start nm (Fin False 49 0) = lit ''  '' @ nm @ lit '': '' @ lit ''49.00'' @ lit '' CHF''"
      by (simp only: line_start_def format_49)
    moreover have "statt (Fin False 2547348539231437 (- 45))
        = lit '' (statt '' @ lit ''72.40'' @ lit '' CHF)''"
      by (simp only: statt_def format_72_4)
    moreover have "shop_line nm (Fin False 49 0, Some (Fin False 2547348539231437 (- 45)))
        = line_start nm (Fin False 49 0) @ statt (Fin False 2547348539231437 (- 45)) @ [newline]"
      by (simp add: shop_line_def)
    ultimately show ?thesis
      by (simp add: lit_def)
  qed
qed


lemmas main_simps =
  main_def sample_config_def galaxus_shop_def load_check_fn_def globals_get_def
  module_bindings_def report_prices_def print_def cents_def round_half_even_def
  scaled_def signed_def

theorem report_lines_witness:
  "stdout (snd (snd (main sample_env sample_config empty_world)))
     = lit ''Checking Widget:'' @ [newline]
       @ lit ''  Galaxus: 49.00 CHF (statt 72.40 CHF)'' @ [newline] @ [newline]"
proof -
  let ?run = "main sample_env sample_config empty_world"
  have ok: "fst ?run = Inr ()"
    by (simp add: main_simps check_simps sample_simps)
  have loaded: "shops (fst (snd ?run)) = galaxus_loaded"
    by (simp add: main_simps check_simps sample_simps galaxus_loaded_def)
  have run: "?run = (Inr (), fst (snd ?run), snd (snd ?run))"
    using ok by (metis prod.collapse)
  have result: "check_result (PExtractor Galaxus) sample_env (lit ''https://shop.example/widget'')
      = Inr (Fin False 49 0, Some (Fin False 2547348539231437 (- 45)))"
    by (simp add: check_result_def check_simps sample_simps)
  have block: "product_block sample_env galaxus_loaded
      \<lparr>product_name = lit ''Widget'',
        product_shops = [(lit ''s1'', lit ''https://shop.example/widget'')]\<rparr>
      = lit ''Checking Widget:'' @ [newline]
        @ shop_line (lit ''Galaxus'') (Fin False 49 0, Some (Fin False 2547348539231437 (- 45)))
        @ [newline]"
    by (simp add: product_block_def line_of_def galaxus_loaded_def result) (simp add: lit_def)
  have products: "products sample_config
      = [\<lparr>product_name = lit ''Widget'',
           product_shops = [(lit ''s1'', lit ''https://shop.example/widget'')]\<rparr>]"
    by (simp add: sample_config_def)
  have facts: "stdout (snd (snd ?run))
        = stdout empty_world
          @ concat (map (product_block sample_env (shops (fst (snd ?run)))) (products sample_config))"
    "shop_line (lit ''Galaxus'') (Fin False 49 0, Some (Fin False 2547348539231437 (- 45)))
        = lit ''  '' @ lit ''Galaxus'' @ lit '': 49.00 CHF (statt 72.40 CHF)'' @ [newline]"
    using report_lines [of "lit ''Galaxus''" _ empty_world _ _ _ _ sample_env] run by blast+
  have "stdout (snd (snd ?run))
      = stdout empty_world
        @ concat (map (product_block sample_env galaxus_loaded)
            [\<lparr>product_name = lit ''Widget'',
              product_shops = [(lit ''s1'', lit ''https://shop.example/widget'')]\<rparr>])"
    using facts(1) by (simp only: loaded products)
  also have "\<dots> = stdout empty_world
        @ (lit ''Checking Widget:'' @ [newline]
           @ (lit ''  '' @ lit ''Galaxus'' @ lit '': 49.00 CHF (statt 72.40 CHF)'' @ [newline])
           @ [newline])"
    by (simp only: list.map concat.simps block facts(2) append_Nil2)
  also have "\<dots> = lit ''Checking Widget:'' @ [newline]
       @ lit ''  Galaxus: 49.00 CHF (statt 72.40 CHF)'' @ [newline] @ [newline]"
    by (simp add: empty_world_def lit_def)
  finally show ?thesis .
qed


subsection \<open>The shop registry\<close>

lemma globals_get_name: "\<exists>v. globals_get E (PStr n) = Inr v"
  by (simp add: globals_get_def split: option.splits)

lemma module_bindings_not_None: "\<forall>b\<in>set module_bindings. snd b \<noteq> PNone"
  by (simp add: module_bindings_def)

lemma module_name_resolves:
  assumes "n \<in> set (map fst module_bindings)"
  shows "\<exists>v. globals_get E (PStr n) = Inr v \<and> v \<noteq> PNone"
proof -
  from assms obtain v where v: "map_of module_bindings n = Some v"
    by (metis map_of_eq_None_iff not_None_eq set_map)
  then have "(n, v) \<in> set module_bindings"
    by (rule map_of_SomeD)
  then have "v \<noteq> PNone"
    using module_bindings_not_None by fastforce
  then show ?thesis
    by (simp add: globals_get_def v)
qed

lemma extractor_resolves: "globals_get E (PStr (extractor_name x)) = Inr (PExtractor x)"
  by (cases x) (simp_all add: globals_get_def module_bindings_def extractor_name_def lit_def)

lemma load_check_fn_iff:
  "load_check_fn E s = Inr s' \<longleftrightarrow>
     (\<exists>v. globals_get E (check_func s) = Inr v \<and> v \<noteq> PNone \<and> s' = s\<lparr>check_func := v\<rparr>)"
  by (cases "globals_get E (check_func s)") (auto simp: load_check_fn_def)

lemma load_shops_unresolved:
  assumes "\<forall>entry\<in>set ss. \<exists>n. check_func (snd entry) = PStr n"
    and "\<exists>entry\<in>set ss. globals_get E (check_func (snd entry)) = Inr PNone"
  shows "\<exists>n ss'. load_shops E ss = (Inl (CheckFuncNotFound (PStr n)), ss')
           \<and> globals_get E (PStr n) = Inr PNone"
  using assms
proof (induction ss)
  case Nil
  then show ?case by simp
next
  case (Cons entry ss)
  obtain k v where entry: "entry = (k, v)" by (cases entry)
  obtain n where n: "check_func v = PStr n"
    using Cons.prems(1) by (auto simp: entry)
  obtain g where g: "globals_get E (PStr n) = Inr g"
    using globals_get_name by blast
  show ?case
  proof (cases "g = PNone")
    case True
    then have "load_shops E (entry # ss) = (Inl (CheckFuncNotFound (PStr n)), entry # ss)"
      by (simp add: entry load_check_fn_def n g)
    then show ?thesis
      using g True by blast
  next
    case False
    then have head: "load_check_fn E v = Inr (v\<lparr>check_func := g\<rparr>)"
      by (simp add: load_check_fn_def n g)
    have "\<exists>e\<in>set ss. globals_get E (check_func (snd e)) = Inr PNone"
      using Cons.prems(2) False by (auto simp: entry n g)
    then obtain m ss' where
      "load_shops E ss = (Inl (CheckFuncNotFound (PStr m)), ss')"
      "globals_get E (PStr m) = Inr PNone"
      using Cons.IH Cons.prems(1) by auto
    then have "load_shops E (entry # ss)
        = (Inl (CheckFuncNotFound (PStr m)), (k, v\<lparr>check_func := g\<rparr>) # ss')
        \<and> globals_get E (PStr m) = Inr PNone"
      by (simp add: entry head)
    then show ?thesis by blast
  qed
qed

text \<open>
  C2, as amended. Resolving a shop's \<open>check_func\<close> succeeds exactly when the module's
  namespace binds it to an object other than None: each of the five check functions
  resolves to itself, and so does every other name that the module binds (\<open>fetch\<close>,
  \<open>main\<close>, \<open>USER_AGENT\<close>, the imported modules, ...). When the configuration's entries are
  strings and one of them is bound to nothing, \<open>main\<close> ends at the registry with
  \<open>ValueError('Check func not found: ...')\<close> for an unbound name, and the world is as
  before: nothing was requested, nothing printed, no check function called.
\<close>

theorem load_check_fn_resolution:
  "(\<forall>x. load_check_fn E (s\<lparr>check_func := PStr (extractor_name x)\<rparr>)
          = Inr (s\<lparr>check_func := PExtractor x\<rparr>))
   \<and> (load_check_fn E s = Inr s' \<longleftrightarrow>
        (\<exists>v. globals_get E (check_func s) = Inr v \<and> v \<noteq> PNone \<and> s' = s\<lparr>check_func := v\<rparr>))
   \<and> (\<forall>n\<in>set (map fst module_bindings).
        \<exists>v. load_check_fn E (s\<lparr>check_func := PStr n\<rparr>) = Inr (s\<lparr>check_func := v\<rparr>))
   \<and> (\<forall>(cfg :: config) w.
        (\<forall>entry\<in>set (shops cfg). \<exists>n. check_func (snd entry) = PStr n)
        \<longrightarrow> (\<exists>entry\<in>set (shops cfg). globals_get E (check_func (snd entry)) = Inr PNone)
        \<longrightarrow> (\<exists>n. fst (main E cfg w) = Inl (CheckFuncNotFound (PStr n))
                 \<and> globals_get E (PStr n) = Inr PNone
                 \<and> snd (snd (main E cfg w)) = w))"
proof (intro conjI allI impI ballI)
  fix x
  show "load_check_fn E (s\<lparr>check_func := PStr (extractor_name x)\<rparr>)
      = Inr (s\<lparr>check_func := PExtractor x\<rparr>)"
    by (simp add: load_check_fn_def extractor_resolves)
next
  show "load_check_fn E s = Inr s' \<longleftrightarrow>
      (\<exists>v. globals_get E (check_func s) = Inr v \<and> v \<noteq> PNone \<and> s' = s\<lparr>check_func := v\<rparr>)"
    by (rule load_check_fn_iff)
next
  fix n
  assume "n \<in> set (map fst module_bindings)"
  then obtain v where "globals_get E (PStr n) = Inr v" "v \<noteq> PNone"
    using module_name_resolves by blast
  then have "load_check_fn E (s\<lparr>check_func := PStr n\<rparr>) = Inr (s\<lparr>check_func := v\<rparr>)"
    by (simp add: load_check_fn_def)
  then show "\<exists>v. load_check_fn E (s\<lparr>check_func := PStr n\<rparr>) = Inr (s\<lparr>check_func := v\<rparr>)"
    by blast
next
  fix cfg :: config and w
  assume "\<forall>entry\<in>set (shops cfg). \<exists>n. check_func (snd entry) = PStr n"
    and "\<exists>entry\<in>set (shops cfg). globals_get E (check_func (snd entry)) = Inr PNone"
  then obtain n ss' where
    "load_shops E (shops cfg) = (Inl (CheckFuncNotFound (PStr n)), ss')"
    "globals_get E (PStr n) = Inr PNone"
    using load_shops_unresolved by blast
  then have "fst (main E cfg w) = Inl (CheckFuncNotFound (PStr n))
      \<and> globals_get E (PStr n) = Inr PNone \<and> snd (snd (main E cfg w)) = w"
    by (simp add: main_def)
  then show "\<exists>n. fst (main E cfg w) = Inl (CheckFuncNotFound (PStr n))
      \<and> globals_get E (PStr n) = Inr PNone \<and> snd (snd (main E cfg w)) = w"
    by blast
qed

theorem load_check_fn_resolution_witness:
  "load_check_fn sample_env galaxus_shop = Inr (galaxus_shop\<lparr>check_func := PExtractor Galaxus\<rparr>)
   \<and> (\<exists>n. fst (main sample_env unknown_config empty_world) = Inl (CheckFuncNotFound (PStr n))
          \<and> snd (snd (main sample_env unknown_config empty_world)) = empty_world)"
proof -
  have g: "galaxus_shop\<lparr>check_func := PStr (extractor_name Galaxus)\<rparr> = galaxus_shop"
    by (simp add: galaxus_shop_def extractor_name_def)
  have strings: "\<forall>entry\<in>set (shops unknown_config). \<exists>n. check_func (snd entry) = PStr n"
    by (simp add: unknown_config_def galaxus_shop_def)
  have "globals_get sample_env (PStr (lit ''check_migros'')) = Inr PNone"
    by (simp add: globals_get_def module_bindings_def sample_env_def lit_def)
  then have unbound: "\<exists>entry\<in>set (shops unknown_config).
      globals_get sample_env (check_func (snd entry)) = Inr PNone"
    by (simp add: unknown_config_def)
  show ?thesis
    using load_check_fn_resolution [of sample_env galaxus_shop] g strings unbound
    by metis
qed

text \<open>
  C2 as stated fails: \<open>fetch\<close> is none of the five check functions, and yet it resolves;
  the run does not stop at the registry, and it sends a request.
\<close>

theorem fetch_resolves_as_check_func:
  "lit ''fetch'' \<notin> set (map extractor_name [Galaxus, Baechli, Intersport, Primal, Transa])
   \<and> load_check_fn sample_env \<lparr>name = lit ''Shop'', check_func = PStr (lit ''fetch'')\<rparr>
       = Inr \<lparr>name = lit ''Shop'', check_func = PFetch\<rparr>
   \<and> requests_log (snd (snd (main sample_env fetch_config empty_world)))
       = [lit ''https://shop.example/widget'']"
  by (simp add: extractor_name_def load_check_fn_def globals_get_def module_bindings_def
      main_def fetch_config_def call_check_func_def print_def sample_simps)


subsection \<open>The configuration after a run\<close>

lemma shop_after_same: "shop_after E entry entry"
  by (simp add: shop_after_def)

lemma load_shops_after: "list_all2 (shop_after E) ss (snd (load_shops E ss))"
proof (induction ss)
  case Nil
  show ?case by simp
next
  case (Cons entry ss)
  obtain k v where entry: "entry = (k, v)" by (cases entry)
  show ?case
  proof (cases "load_check_fn E v")
    case (Inl e)
    then show ?thesis
      by (simp add: entry shop_after_same list_all2_same)
  next
    case (Inr v')
    then obtain func where "globals_get E (check_func v) = Inr func" "v' = v\<lparr>check_func := func\<rparr>"
      by (auto simp: load_check_fn_iff)
    then have head: "shop_after E (k, v) (k, v')"
      by (simp add: shop_after_def)
    obtain res ss' where rest: "load_shops E ss = (res, ss')"
      by (cases "load_shops E ss")
    then have "list_all2 (shop_after E) ss ss'"
      using Cons.IH by simp
    then show ?thesis
      using head by (cases res) (simp_all add: entry Inr rest)
  qed
qed

lemma main_config: "fst (snd (main E cfg w)) = cfg\<lparr>shops := snd (load_shops E (shops cfg))\<rparr>"
  by (simp add: main_def split: prod.splits sum.splits)

text \<open>
  C8, as amended. A run leaves the products of the configuration as they were, and the
  shops with their identifiers, their order and their display names; of a shop entry it
  changes at most \<open>check_func\<close>, which then holds the object that the name resolved to.
\<close>

theorem main_changes_only_check_func:
  "products (fst (snd (main E cfg w))) = products cfg
   \<and> list_all2 (shop_after E) (shops cfg) (shops (fst (snd (main E cfg w))))"
  by (simp add: main_config load_shops_after)

theorem main_changes_only_check_func_witness:
  "products (fst (snd (main sample_env sample_config empty_world))) = products sample_config
   \<and> list_all2 (shop_after sample_env) (shops sample_config)
        (shops (fst (snd (main sample_env sample_config empty_world))))"
  using main_changes_only_check_func [of sample_env sample_config empty_world] .

text \<open>
  C8 as stated fails: after a run the shop entry of the configuration holds the function
  object, where the loaded configuration held its name.
\<close>

theorem main_rewrites_check_func:
  "map (\<lambda>entry. check_func (snd entry)) (shops sample_config) = [PStr (lit ''check_galaxus'')]
   \<and> map (\<lambda>entry. check_func (snd entry))
         (shops (fst (snd (main sample_env sample_config empty_world))))
       = [PExtractor Galaxus]"
  by (simp add: main_config sample_config_def galaxus_shop_def load_check_fn_def
      globals_get_def module_bindings_def lit_def)

subsection \<open>A second run\<close>

lemma load_shops_extractors:
  assumes "\<forall>entry\<in>set ss. \<exists>x. check_func (snd entry) = PStr (extractor_name x)"
  shows "\<exists>ss'. load_shops E ss = (Inr ss', ss') \<and> length ss' = length ss
           \<and> (\<forall>entry\<in>set ss'. \<exists>x. check_func (snd entry) = PExtractor x)"
  using assms
proof (induction ss)
  case Nil
  then show ?case by simp
next
  case (Cons entry ss)
  obtain k v where entry: "entry = (k, v)" by (cases entry)
  obtain x where x: "check_func v = PStr (extractor_name x)"
    using Cons.prems by (auto simp: entry)
  have head: "load_check_fn E v = Inr (v\<lparr>check_func := PExtractor x\<rparr>)"
    by (simp add: load_check_fn_def x extractor_resolves)
  obtain ss' where rest: "load_shops E ss = (Inr ss', ss')" "length ss' = length ss"
    "\<forall>entry\<in>set ss'. \<exists>x. check_func (snd entry) = PExtractor x"
    using Cons.IH Cons.prems by auto
  have "load_shops E (entry # ss)
      = (Inr ((k, v\<lparr>check_func := PExtractor x\<rparr>) # ss'), (k, v\<lparr>check_func := PExtractor x\<rparr>) # ss')"
    by (simp add: entry head rest(1))
  then show ?case
    using rest(2,3) by auto
qed

lemma load_shops_function_object:
  "check_func v = PExtractor x \<Longrightarrow>
   load_shops E ((k, v) # ss) = (Inl (CheckFuncNotFound (PExtractor x)), (k, v) # ss)"
  by (simp add: load_check_fn_def globals_get_def)

text \<open>
  C9, as amended. What a run returns and what it adds to the output and to the requests
  depends on the configuration and the responses alone, not on what was printed or
  requested before. But a run leaves its mark in the configuration: when the
  configuration has a shop and its shops name check functions, a second run on the
  configuration that the first run has left ends at the registry with
  \<open>ValueError('Check func not found: ...')\<close> for a function object; it prints nothing, sends
  no request and leaves the configuration as it found it.
\<close>

theorem second_run_fails:
  assumes "shops cfg \<noteq> []"
    and "\<forall>entry\<in>set (shops cfg). \<exists>x. check_func (snd entry) = PStr (extractor_name x)"
  shows "(\<exists>x. main E (fst (snd (main E cfg w))) w2
              = (Inl (CheckFuncNotFound (PExtractor x)), fst (snd (main E cfg w)), w2))
       \<and> (\<exists>r cfg' out reqs. \<forall>w0. main E cfg w0 = (r, cfg', extend out reqs w0))"
proof
  obtain ss' where loaded: "load_shops E (shops cfg) = (Inr ss', ss')"
    and len: "length ss' = length (shops cfg)"
    and objects: "\<forall>entry\<in>set ss'. \<exists>x. check_func (snd entry) = PExtractor x"
    using load_shops_extractors [OF assms(2)] by blast
  have after: "fst (snd (main E cfg w)) = cfg\<lparr>shops := ss'\<rparr>"
    by (simp add: main_config loaded)
  obtain k v rest where ss': "ss' = (k, v) # rest"
    using len assms(1) by (cases ss') auto
  obtain x where "check_func v = PExtractor x"
    using objects by (auto simp: ss')
  then have "load_shops E ss' = (Inl (CheckFuncNotFound (PExtractor x)), ss')"
    by (simp only: ss' load_shops_function_object)
  then have "main E (cfg\<lparr>shops := ss'\<rparr>) w2
      = (Inl (CheckFuncNotFound (PExtractor x)), cfg\<lparr>shops := ss'\<rparr>, w2)"
    by (simp add: main_def)
  then show "\<exists>x. main E (fst (snd (main E cfg w))) w2
      = (Inl (CheckFuncNotFound (PExtractor x)), fst (snd (main E cfg w)), w2)"
    by (auto simp: after)
next
  show "\<exists>r cfg' out reqs. \<forall>w0. main E cfg w0 = (r, cfg', extend out reqs w0)"
    by (rule main_frame)
qed

theorem second_run_fails_witness:
  "\<exists>x. main sample_env (fst (snd (main sample_env sample_config empty_world))) empty_world
          = (Inl (CheckFuncNotFound (PExtractor x)),
             fst (snd (main sample_env sample_config empty_world)), empty_world)"
proof -
  have a: "shops sample_config \<noteq> []"
    by (simp add: sample_config_def)
  have "check_func galaxus_shop = PStr (extractor_name Galaxus)"
    by (simp add: galaxus_shop_def extractor_name_def)
  then have b: "\<forall>entry\<in>set (shops sample_config).
      \<exists>x. check_func (snd entry) = PStr (extractor_name x)"
    by (auto simp: sample_config_def)
  show ?thesis
    using second_run_fails [OF a b, of sample_env empty_world empty_world] by blast
qed

text \<open>
  C9 as stated fails: the first run on the sample configuration prints the report, the
  second run on the same configuration prints nothing.
\<close>

theorem second_run_prints_nothing:
  "stdout (snd (snd (main sample_env sample_config empty_world)))
     \<noteq> stdout (snd (snd (main sample_env
                  (fst (snd (main sample_env sample_config empty_world))) empty_world)))
   \<and> stdout (snd (snd (main sample_env
                  (fst (snd (main sample_env sample_config empty_world))) empty_world))) = []
   \<and> fst (main sample_env (fst (snd (main sample_env sample_config empty_world))) empty_world)
       = Inl (CheckFuncNotFound (PExtractor Galaxus))"
proof -
  have first: "stdout (snd (snd (main sample_env sample_config empty_world))) \<noteq> []"
    by (simp add: main_simps check_simps sample_simps)
  have after: "fst (snd (main sample_env sample_config empty_world))
      = sample_config\<lparr>shops := galaxus_loaded\<rparr>"
    by (simp add: main_config sample_config_def galaxus_shop_def galaxus_loaded_def
        load_check_fn_def globals_get_def module_bindings_def lit_def)
  have second: "main sample_env (sample_config\<lparr>shops := galaxus_loaded\<rparr>) empty_world
      = (Inl (CheckFuncNotFound (PExtractor Galaxus)),
         sample_config\<lparr>shops := galaxus_loaded\<rparr>, empty_world)"
    by (simp add: main_def galaxus_loaded_def load_check_fn_def globals_get_def)
  show ?thesis
    using first by (simp only: after second) (simp add: empty_world_def)
qed

end
